theory Spec2Isabelle
  imports Complex_Main "HOL-Library.Word" "HOL-Library.Log_Nat"
begin

section \<open>Floating-point values\<close>

text \<open>
  \<^verbatim>\<open>EntryPoint.cpp\<close> computes on \<^verbatim>\<open>float\<close> (IEEE 754 binary32) samples and on
  \<^verbatim>\<open>double\<close> sample rates.  A floating-point datum is modelled by the number it denotes:
  a rational, one of the two infinities, or NaN.  The two zeros are identified; no
  operation of the program tells them apart (comparison treats them as equal, truncation
  to an integer gives 0 for both).
\<close>

datatype flt = Finite rat | PInf | NInf | NaN

text \<open>The C++ comparison \<^verbatim>\<open>a < b\<close> on floating-point operands: false as soon as one is NaN.\<close>

fun flt_less :: "flt \<Rightarrow> flt \<Rightarrow> bool" where
  "flt_less NaN b = False"
| "flt_less a NaN = False"
| "flt_less (Finite a) (Finite b) = (a < b)"
| "flt_less (Finite a) PInf = True"
| "flt_less (Finite a) NInf = False"
| "flt_less PInf b = False"
| "flt_less NInf (Finite b) = True"
| "flt_less NInf PInf = True"
| "flt_less NInf NInf = False"

text \<open>Rounding a rational to the nearest integer, ties to the even one.\<close>

definition rhe :: "rat \<Rightarrow> int" where
  "rhe x = (let f = \<lfloor>x\<rfloor>; d = x - of_int f in
     if d < 1 / 2 then f else if 1 / 2 < d then f + 1 else if even f then f else f + 1)"

text \<open>The binary exponent of a positive rational \<open>x\<close>: the \<open>e\<close> with \<open>2\<^sup>e \<le> x < 2\<^sup>e\<^sup>+\<^sup>1\<close>.\<close>

definition ilog2 :: "rat \<Rightarrow> int" where
  "ilog2 x = (case quotient_of x of (a, b) \<Rightarrow>
     let d = bitlen a - bitlen b in if 2 powi d \<le> x then d else d - 1)"

text \<open>
  Rounding to binary32, round-to-nearest-even: 24 significant bits, least normal exponent
  \<open>-126\<close> (below it the spacing stays \<open>2\<^sup>-\<^sup>1\<^sup>4\<^sup>9\<close>: subnormal numbers), overflow to an
  infinity when the rounded magnitude reaches \<open>2\<^sup>1\<^sup>2\<^sup>8\<close>.  Every \<^verbatim>\<open>float\<close> operation of the
  program is the exact result rounded this way (the operations are evaluated in the
  precision of their type).
\<close>

definition round32 :: "rat \<Rightarrow> flt" where
  "round32 x = (if x = 0 then Finite 0 else
     let e = max (ilog2 \<bar>x\<bar>) (- 126);
         u = 2 powi (e - 23);
         r = of_int (rhe (x / u)) * u
     in if 2 ^ 128 \<le> r then PInf else if r \<le> - (2 ^ 128) then NInf else Finite r)"

text \<open>The sign of a datum, and the infinity (or NaN) of a given sign.\<close>

fun flt_sgn :: "flt \<Rightarrow> int" where
  "flt_sgn (Finite a) = (if 0 < a then 1 else if a < 0 then - 1 else 0)"
| "flt_sgn PInf = 1"
| "flt_sgn NInf = - 1"
| "flt_sgn NaN = 0"

definition signed_inf :: "int \<Rightarrow> flt" where
  "signed_inf s = (if 0 < s then PInf else if s < 0 then NInf else NaN)"

text \<open>\<^verbatim>\<open>a * b\<close> on \<^verbatim>\<open>float\<close> operands.\<close>

fun fmul32 :: "flt \<Rightarrow> flt \<Rightarrow> flt" where
  "fmul32 NaN b = NaN"
| "fmul32 a NaN = NaN"
| "fmul32 (Finite a) (Finite b) = round32 (a * b)"
| "fmul32 a b = signed_inf (flt_sgn a * flt_sgn b)"

text \<open>
  \<^verbatim>\<open>a / b\<close> on \<^verbatim>\<open>float\<close> operands.  The program only ever divides by the constant
  \<^verbatim>\<open>32768.0f\<close>; a zero divisor is taken as \<open>+0\<close>.
\<close>

fun fdiv32 :: "flt \<Rightarrow> flt \<Rightarrow> flt" where
  "fdiv32 NaN b = NaN"
| "fdiv32 a NaN = NaN"
| "fdiv32 (Finite a) (Finite b) =
     (if b = 0 then signed_inf (flt_sgn (Finite a)) else round32 (a / b))"
| "fdiv32 (Finite a) b = Finite 0"
| "fdiv32 a (Finite b) = signed_inf (flt_sgn a * (if b < 0 then - 1 else 1))"
| "fdiv32 a b = NaN"

text \<open>The conversion of an \<^verbatim>\<open>int\<close> operand to \<^verbatim>\<open>float\<close>.\<close>

definition int_to_float32 :: "int \<Rightarrow> flt" where
  "int_to_float32 i = round32 (of_int i)"

text \<open>
  Conversions from floating point to an integer type truncate toward zero; in C++ the
  behaviour is undefined when the truncated value does not fit the target type (and for
  infinities and NaN), which is the result \<open>None\<close> here.
\<close>

definition trunc :: "rat \<Rightarrow> int" where
  "trunc r = (if 0 \<le> r then \<lfloor>r\<rfloor> else \<lceil>r\<rceil>)"

fun float_to_int16 :: "flt \<Rightarrow> 16 word option" where
  "float_to_int16 (Finite r) =
     (let t = trunc r in if - 32768 \<le> t \<and> t \<le> 32767 then Some (word_of_int t) else None)"
| "float_to_int16 x = None"

fun double_to_uint :: "flt \<Rightarrow> 32 word option" where
  "double_to_uint (Finite r) =
     (let t = trunc r in if 0 \<le> t \<and> t < 2 ^ 32 then Some (word_of_int t) else None)"
| "double_to_uint x = None"

text \<open>\<^verbatim>\<open>std::min(a, b)\<close>, which is \<^verbatim>\<open>(b < a) ? b : a\<close>.\<close>

definition std_min :: "flt \<Rightarrow> flt \<Rightarrow> flt" where
  "std_min a b = (if flt_less b a then b else a)"

section \<open>The format converter\<close>

text \<open>
  Line 46 of \<^verbatim>\<open>audioCallback\<close>, the body of the input loop in \<^verbatim>\<open>paInt16\<close> mode:
  \<^verbatim>\<open>inFloat[i] = in[i] / 32768.0f\<close>.  The \<^verbatim>\<open>int16_t\<close> operand is promoted to \<^verbatim>\<open>int\<close> and
  converted to \<^verbatim>\<open>float\<close> before the division.
\<close>

definition toNormalized :: "16 word \<Rightarrow> flt" where
  "toNormalized s = fdiv32 (int_to_float32 (sint s)) (Finite 32768)"

text \<open>
  Lines 75 to 80, the body of the output loop in \<^verbatim>\<open>paInt16\<close> mode: the two clamping
  comparisons, then \<^verbatim>\<open>(int16_t)(sample * 32767.0f)\<close>.
\<close>

definition toFixed16 :: "flt \<Rightarrow> 16 word option" where
  "toFixed16 x =
     (let sample = x;
          sample = (if flt_less (Finite 1) sample then Finite 1 else sample);
          sample = (if flt_less sample (Finite (- 1)) then Finite (- 1) else sample)
      in float_to_int16 (fmul32 sample (Finite 32767)))"

section \<open>The per-buffer callback\<close>

text \<open>
  The constants of \<^verbatim>\<open>portaudio.h\<close> the program names: sample formats are bit flags of type
  \<^verbatim>\<open>unsigned long\<close>, error codes and callback results are \<^verbatim>\<open>int\<close>s.
\<close>

type_synonym PaSampleFormat = nat
type_synonym PaError = int

definition paFloat32 :: PaSampleFormat where "paFloat32 = 1"
definition paInt16 :: PaSampleFormat where "paInt16 = 8"
definition paContinue :: int where "paContinue = 0"
definition paNoError :: PaError where "paNoError = 0"
definition paSampleFormatNotSupported :: PaError where "paSampleFormatNotSupported = - 9994"

text \<open>\<^verbatim>\<open>struct CallbackData\<close>; \<open>'h\<close> is what the SoundTouch handle stands for.\<close>

record 'h CallbackData =
  hST :: 'h
  format :: PaSampleFormat
  channels :: int

text \<open>
  The memory behind the driver's \<^verbatim>\<open>void *\<close> buffers: interleaved samples, laid out as
  \<^verbatim>\<open>float\<close> or as \<^verbatim>\<open>int16_t\<close>.  A null pointer is \<open>None\<close>.
\<close>

datatype samples = Float32Samples "flt list" | Int16Samples "16 word list"

text \<open>
  The time-stretch engine is an external library.  \<^verbatim>\<open>soundtouch_putSamples(h, samples, n)\<close>
  changes the state behind the handle.  \<^verbatim>\<open>soundtouch_receiveSamples(h, outBuffer, max)\<close>
  changes the state, overwrites the buffer it is given and returns a count, taken here as
  the \<^verbatim>\<open>int\<close> the callback stores in \<^verbatim>\<open>received\<close>.
\<close>

record 'h SoundTouch =
  soundtouch_putSamples :: "'h \<Rightarrow> flt list \<Rightarrow> nat \<Rightarrow> 'h"
  soundtouch_receiveSamples :: "'h \<Rightarrow> flt list \<Rightarrow> nat \<Rightarrow> 'h \<times> flt list \<times> int"

text \<open>
  What C++ leaves undefined, or answers with an exception, is a fault of the model:
  \<^item> \<open>SizeOutOfRange\<close>: a negative channel count (converted to \<^verbatim>\<open>unsigned long\<close> it asks
    the \<^verbatim>\<open>std::vector\<close> constructor for an impossible size), or a sample count of
    \<open>2\<^sup>3\<^sup>1\<close> or more, where the \<^verbatim>\<open>int\<close> and \<^verbatim>\<open>unsigned\<close> loop counters would wrap;
  \<^item> \<open>OutOfBounds\<close>: an access outside a buffer;
  \<^item> \<open>FormatMismatch\<close>: a driver buffer that is not laid out in the stream's format;
  \<^item> \<open>IntegerOverflow\<close>: signed overflow in \<^verbatim>\<open>received * channels\<close>;
  \<^item> \<open>UndefinedConversion\<close>: a floating-point value converted to an integer type that
    cannot hold it.
\<close>

datatype fault = SizeOutOfRange | OutOfBounds | FormatMismatch | IntegerOverflow
  | UndefinedConversion

text \<open>
  Lines 27 and 30 to 49: \<^verbatim>\<open>inFloat\<close> is created with \<open>n\<close> zeros; a non-null input is copied
  (\<^verbatim>\<open>paFloat32\<close>) or normalized sample by sample (\<^verbatim>\<open>paInt16\<close>); in any other format, and
  for a null input, \<^verbatim>\<open>inFloat\<close> keeps its zeros.
\<close>

definition convertInput :: "PaSampleFormat \<Rightarrow> samples option \<Rightarrow> nat \<Rightarrow> fault + flt list" where
  "convertInput fmt input n =
     (let inFloat = replicate n (Finite 0) in
      if fmt = paFloat32 then
        (case input of
           None \<Rightarrow> Inr inFloat
         | Some (Float32Samples ins) \<Rightarrow>
             if length ins < n then Inl OutOfBounds else Inr (take n ins)
         | Some (Int16Samples ins) \<Rightarrow> Inl FormatMismatch)
      else if fmt = paInt16 then
        (case input of
           None \<Rightarrow> Inr inFloat
         | Some (Int16Samples ins) \<Rightarrow>
             if length ins < n then Inl OutOfBounds else Inr (map toNormalized (take n ins))
         | Some (Float32Samples ins) \<Rightarrow> Inl FormatMismatch)
      else Inr inFloat)"

text \<open>Lines 52 and 53: the buffer is submitted unless it is empty.\<close>

definition feed :: "'h SoundTouch \<Rightarrow> 'h \<Rightarrow> flt list \<Rightarrow> nat \<Rightarrow> 'h" where
  "feed st h inFloat framesPerBuffer =
     (if inFloat \<noteq> [] then soundtouch_putSamples st h inFloat framesPerBuffer else h)"

text \<open>
  Lines 59 to 62, the padding loop
  \<^verbatim>\<open>for (int i = received * channels; i < (int)(framesPerBuffer * channels); i++) outFloat[i] = 0.0f;\<close>
\<close>

function padLoop :: "int \<Rightarrow> int \<Rightarrow> flt list \<Rightarrow> flt list" where
  "padLoop i n outFloat =
     (if i < n then padLoop (i + 1) n (outFloat[nat i := Finite 0]) else outFloat)"
  by pat_completeness auto
termination
  by (relation "measure (\<lambda>(i, n, outFloat). nat (n - i))") auto

declare padLoop.simps [simp del]

text \<open>
  The loop with its start value.  \<^verbatim>\<open>outFloat\<close> holds \<^verbatim>\<open>framesPerBuffer * channels\<close> samples,
  so the loop bound is its length; a negative start index writes before the buffer.
\<close>

definition padSilence :: "int \<Rightarrow> int \<Rightarrow> flt list \<Rightarrow> fault + flt list" where
  "padSilence received chans outFloat =
     (let start = received * chans in
      if start < - (2 ^ 31) \<or> 2 ^ 31 \<le> start then Inl IntegerOverflow
      else if start < 0 then Inl OutOfBounds
      else Inr (padLoop start (int (length outFloat)) outFloat))"

text \<open>
  Lines 64 to 82: \<^verbatim>\<open>outFloat\<close> is copied to the driver's output buffer (\<^verbatim>\<open>paFloat32\<close>) or
  converted sample by sample (\<^verbatim>\<open>paInt16\<close>); in any other format the output buffer is left
  as it was.  Samples of the output buffer past the ones written keep their old value.
\<close>

definition convertOutput :: "PaSampleFormat \<Rightarrow> flt list \<Rightarrow> samples \<Rightarrow> fault + samples" where
  "convertOutput fmt outFloat output =
     (if fmt = paFloat32 then
        (case output of
           Float32Samples out \<Rightarrow>
             if length out < length outFloat then Inl OutOfBounds
             else Inr (Float32Samples (outFloat @ drop (length outFloat) out))
         | Int16Samples out \<Rightarrow> Inl FormatMismatch)
      else if fmt = paInt16 then
        (case output of
           Int16Samples out \<Rightarrow>
             if length out < length outFloat then Inl OutOfBounds
             else (case those (map toFixed16 outFloat) of
                     None \<Rightarrow> Inl UndefinedConversion
                   | Some ws \<Rightarrow> Inr (Int16Samples (ws @ drop (length outFloat) out)))
         | Float32Samples out \<Rightarrow> Inl FormatMismatch)
      else Inr output)"

text \<open>
  Lines 55 to 84: drain the engine into \<^verbatim>\<open>outFloat\<close> (\<open>n\<close> zeros when it is created on line
  28), pad, convert and return \<^verbatim>\<open>paContinue\<close>.  The engine writes into a buffer of \<open>n\<close>
  samples; an engine that returns a buffer of another size has written outside it.
\<close>

definition drainAndRender ::
  "'h SoundTouch \<Rightarrow> 'h \<Rightarrow> samples \<Rightarrow> nat \<Rightarrow> 'h CallbackData \<Rightarrow> nat
    \<Rightarrow> fault + ('h \<times> samples \<times> int)" where
  "drainAndRender st h output framesPerBuffer data n =
     (case soundtouch_receiveSamples st h (replicate n (Finite 0)) framesPerBuffer of
        (h', outFloat, received) \<Rightarrow>
          if length outFloat \<noteq> n then Inl OutOfBounds
          else (case padSilence received (channels data) outFloat of
                  Inl f \<Rightarrow> Inl f
                | Inr padded \<Rightarrow>
                    (case convertOutput (format data) padded output of
                       Inl f \<Rightarrow> Inl f
                     | Inr out \<Rightarrow> Inr (h', out, paContinue))))"

text \<open>
  \<^verbatim>\<open>audioCallback(input, output, framesPerBuffer, timeInfo, flags, userData)\<close>; the time
  information and the flags are not used.  The result is the state of the engine, the
  contents of the output buffer and the value returned to the driver.
\<close>

definition audioCallback ::
  "'h SoundTouch \<Rightarrow> samples option \<Rightarrow> samples \<Rightarrow> nat \<Rightarrow> 'h CallbackData
    \<Rightarrow> fault + ('h \<times> samples \<times> int)" where
  "audioCallback st input output framesPerBuffer data =
     (let h = hST data; chans = channels data in
      if chans < 0 \<or> 2 ^ 31 \<le> int framesPerBuffer * chans then Inl SizeOutOfRange
      else
        let n = framesPerBuffer * nat chans in
        case convertInput (format data) input n of
          Inl f \<Rightarrow> Inl f
        | Inr inFloat \<Rightarrow>
            drainAndRender st (feed st h inFloat framesPerBuffer) output framesPerBuffer data n)"

section \<open>Start-up: device negotiation and stream opening\<close>

text \<open>
  The fields of PortAudio's \<^verbatim>\<open>PaDeviceInfo\<close> and \<^verbatim>\<open>PaStreamParameters\<close> that \<^verbatim>\<open>main\<close> reads or
  writes (\<^verbatim>\<open>hostApiSpecificStreamInfo\<close> is always null), and the arguments of one
  \<^verbatim>\<open>Pa_OpenStream\<close> call (the flags are always \<^verbatim>\<open>paNoFlag\<close>, the callback is always
  \<^verbatim>\<open>audioCallback\<close>, the user data always the address of \<^verbatim>\<open>cbData\<close>).
\<close>

record PaDeviceInfo =
  maxInputChannels :: int
  maxOutputChannels :: int
  defaultSampleRate :: flt
  defaultLowInputLatency :: flt
  defaultLowOutputLatency :: flt

record PaStreamParameters =
  device :: int
  channelCount :: int
  sampleFormat :: PaSampleFormat
  suggestedLatency :: flt

record OpenRequest =
  rq_input :: PaStreamParameters
  rq_output :: PaStreamParameters
  rq_sampleRate :: flt
  rq_framesPerBuffer :: nat

definition FRAMES_PER_BUFFER :: nat where "FRAMES_PER_BUFFER = 512"

text \<open>
  What \<^verbatim>\<open>main\<close> is told by its surroundings: the results of the PortAudio calls, the two
  device ids read from standard input, the handle \<^verbatim>\<open>soundtouch_createInstance\<close> returns.
  \<^verbatim>\<open>Pa_OpenStream\<close> answers each request with an error code.
\<close>

record 'h World =
  Pa_Initialize :: PaError
  Pa_GetDeviceCount :: int
  Pa_GetDeviceInfo :: "int \<Rightarrow> PaDeviceInfo"
  cin_inputDevice :: int
  cin_outputDevice :: int
  soundtouch_createInstance :: 'h
  Pa_OpenStream :: "OpenRequest \<Rightarrow> PaError"

text \<open>
  What \<^verbatim>\<open>main\<close> does to its surroundings, in order: the calls that acquire, configure or
  release the driver, the engine and the stream, and the diagnostics written to
  \<^verbatim>\<open>std::cerr\<close>.  The device listing and the prompts on \<^verbatim>\<open>std::cout\<close> are left out.
\<close>

datatype diag = InitFailed PaError | DeviceCountError int | InvalidDeviceId | UnsupportedIO
  | Float32NotSupported | OpenFailed PaError

datatype call = CallPaInitialize | CallPaTerminate | CallCreateInstance
  | CallSetSampleRate "32 word" | CallSetChannels int | CallSetPitchSemiTones flt
  | CallOpenStream OpenRequest | CallStartStream | CallStopStream | CallCloseStream
  | CallDestroyInstance | Stderr diag

text \<open>
  The result of a run: the calls made, the exit status, and for a stream that was opened
  the request that opened it with the \<^verbatim>\<open>cbData\<close> its callback reads.
\<close>

record 'h Outcome =
  calls :: "call list"
  exitCode :: int
  opened :: "(OpenRequest \<times> 'h CallbackData) option"

text \<open>
  \<^verbatim>\<open>main\<close>.  The conversion \<^verbatim>\<open>(unsigned int)sampleRate\<close> on line 165 is undefined for a rate
  that an \<^verbatim>\<open>unsigned int\<close> cannot hold.
\<close>

definition main :: "'h World \<Rightarrow> fault + 'h Outcome" where
  "main w =
     (let err = Pa_Initialize w in
      if err \<noteq> paNoError then
        Inr \<lparr>calls = [CallPaInitialize, Stderr (InitFailed err)],
             exitCode = - 1, opened = None\<rparr>
      else
      let numDevices = Pa_GetDeviceCount w in
      if numDevices < 0 then
        Inr \<lparr>calls = [CallPaInitialize, Stderr (DeviceCountError numDevices), CallPaTerminate],
             exitCode = - 1, opened = None\<rparr>
      else
      let inputDevice = cin_inputDevice w; outputDevice = cin_outputDevice w in
      if inputDevice < 0 \<or> numDevices \<le> inputDevice
          \<or> outputDevice < 0 \<or> numDevices \<le> outputDevice then
        Inr \<lparr>calls = [CallPaInitialize, Stderr InvalidDeviceId, CallPaTerminate],
             exitCode = - 1, opened = None\<rparr>
      else
      let inInfo = Pa_GetDeviceInfo w inputDevice;
          outInfo = Pa_GetDeviceInfo w outputDevice;
          sampleRate = std_min (defaultSampleRate inInfo) (defaultSampleRate outInfo);
          inChannels = (if 2 \<le> maxInputChannels inInfo then 2
                        else if 0 < maxInputChannels inInfo then 1 else 0);
          outChannels = (if 2 \<le> maxOutputChannels outInfo then 2
                         else if 0 < maxOutputChannels outInfo then 1 else 0)
      in
      if inChannels = 0 \<or> outChannels = 0 then
        Inr \<lparr>calls = [CallPaInitialize, Stderr UnsupportedIO, CallPaTerminate],
             exitCode = - 1, opened = None\<rparr>
      else
      let handle = soundtouch_createInstance w in
      case double_to_uint sampleRate of
        None \<Rightarrow> Inl UndefinedConversion
      | Some rate \<Rightarrow>
      let setup = [CallPaInitialize, CallCreateInstance, CallSetSampleRate rate,
                   CallSetChannels inChannels, CallSetPitchSemiTones (Finite (- 4))];
          request = (\<lambda>fmt.
            \<lparr>rq_input = \<lparr>device = inputDevice, channelCount = inChannels,
                         sampleFormat = fmt,
                         suggestedLatency = defaultLowInputLatency inInfo\<rparr>,
             rq_output = \<lparr>device = outputDevice, channelCount = outChannels,
                          sampleFormat = fmt,
                          suggestedLatency = defaultLowOutputLatency outInfo\<rparr>,
             rq_sampleRate = sampleRate,
             rq_framesPerBuffer = FRAMES_PER_BUFFER\<rparr>);
          fmt = paFloat32;
          cbData = \<lparr>hST = handle, format = fmt, channels = inChannels\<rparr>;
          err = Pa_OpenStream w (request fmt);
          attempts = [CallOpenStream (request fmt)];
          (fmt, cbData, err, attempts) =
            (if err = paSampleFormatNotSupported then
               let fmt = paInt16; cbData = cbData\<lparr>format := fmt\<rparr> in
               (fmt, cbData, Pa_OpenStream w (request fmt),
                attempts @ [Stderr Float32NotSupported, CallOpenStream (request fmt)])
             else (fmt, cbData, err, attempts))
      in
      if err \<noteq> paNoError then
        Inr \<lparr>calls = setup @ attempts
               @ [Stderr (OpenFailed err), CallDestroyInstance, CallPaTerminate],
             exitCode = - 1, opened = None\<rparr>
      else
        Inr \<lparr>calls = setup @ attempts
               @ [CallStartStream, CallStopStream, CallCloseStream, CallDestroyInstance,
                  CallPaTerminate],
             exitCode = 0, opened = Some (request fmt, cbData)\<rparr>)"

text \<open>The requests of the \<^verbatim>\<open>Pa_OpenStream\<close> calls of a run, in order.\<close>

fun openRequests :: "call list \<Rightarrow> OpenRequest list" where
  "openRequests [] = []"
| "openRequests (CallOpenStream r # cs) = r # openRequests cs"
| "openRequests (c # cs) = openRequests cs"

section \<open>The contract between driver, engine and callback\<close>

text \<open>
  What the callback relies on.  A driver buffer \<^emph>\<open>holds\<close> \<open>n\<close> samples of a format when it
  is laid out in that format and has room for them; for a format that the callback
  neither reads nor writes, any buffer will do.
\<close>

definition bufferHolds :: "PaSampleFormat \<Rightarrow> samples \<Rightarrow> nat \<Rightarrow> bool" where
  "bufferHolds fmt buf n =
     (if fmt = paFloat32 then
        (case buf of Float32Samples xs \<Rightarrow> n \<le> length xs | Int16Samples xs \<Rightarrow> False)
      else if fmt = paInt16 then
        (case buf of Int16Samples xs \<Rightarrow> n \<le> length xs | Float32Samples xs \<Rightarrow> False)
      else True)"

text \<open>
  The driver's side: a sample count the callback's index arithmetic can represent, an
  input buffer that is null or holds \<^verbatim>\<open>framesPerBuffer * channels\<close> samples of the stream's
  format, and an output buffer that does.
\<close>

definition driverContract ::
  "samples option \<Rightarrow> samples \<Rightarrow> nat \<Rightarrow> 'h CallbackData \<Rightarrow> bool" where
  "driverContract input output framesPerBuffer data =
     (let n = framesPerBuffer * nat (channels data) in
      0 \<le> channels data \<and> int framesPerBuffer * channels data < 2 ^ 31
      \<and> (case input of None \<Rightarrow> True | Some buf \<Rightarrow> bufferHolds (format data) buf n)
      \<and> bufferHolds (format data) output n)"

text \<open>
  The engine's side, for a drain in state \<open>h\<close>: it stays inside the buffer, returns a count
  that is not negative and that \<^verbatim>\<open>received * channels\<close> does not overflow on (any count up
  to the number of frames asked for is one), and in \<^verbatim>\<open>paInt16\<close> mode hands out no NaN.
\<close>

definition engineContract :: "'h SoundTouch \<Rightarrow> 'h \<Rightarrow> nat \<Rightarrow> 'h CallbackData \<Rightarrow> bool" where
  "engineContract st h framesPerBuffer data =
     (let n = framesPerBuffer * nat (channels data) in
      case soundtouch_receiveSamples st h (replicate n (Finite 0)) framesPerBuffer of
        (h', drained, received) \<Rightarrow>
          length drained = n \<and> 0 \<le> received \<and> received * channels data < 2 ^ 31
          \<and> (format data = paInt16 \<longrightarrow>
                NaN \<notin> set (take (nat (received * channels data)) drained)))"

section \<open>Example inputs\<close>

text \<open>
  An engine for one channel: its state is the queue of the samples it holds, and every
  drain hands out the first half of them (as many as the buffer takes).
\<close>

definition fifoEngine :: "(flt list) SoundTouch" where
  "fifoEngine = \<lparr>
     soundtouch_putSamples = (\<lambda>h xs maxFrames. h @ xs),
     soundtouch_receiveSamples = (\<lambda>h buf maxFrames.
       let k = min (length h div 2) (length buf) in (drop k h, take k h @ drop k buf, int k)) \<rparr>"

text \<open>The callback data of a one-channel stream in each format, the engine empty.\<close>

definition monoFloat32 :: "(flt list) CallbackData" where
  "monoFloat32 = \<lparr> hST = [], format = paFloat32, channels = 1 \<rparr>"

definition monoInt16 :: "(flt list) CallbackData" where
  "monoInt16 = \<lparr> hST = [], format = paInt16, channels = 1 \<rparr>"

section \<open>Notions the properties of start-up are stated with\<close>

text \<open>The two devices the user selected.\<close>

definition selectedInput :: "'h World \<Rightarrow> PaDeviceInfo" where
  "selectedInput w = Pa_GetDeviceInfo w (cin_inputDevice w)"

definition selectedOutput :: "'h World \<Rightarrow> PaDeviceInfo" where
  "selectedOutput w = Pa_GetDeviceInfo w (cin_outputDevice w)"

text \<open>
  The run gets as far as negotiation: PortAudio initialised, and both ids are ids of
  devices (so the device count is not negative either).
\<close>

definition devicesSelected :: "'h World \<Rightarrow> bool" where
  "devicesSelected w =
     (Pa_Initialize w = paNoError
      \<and> 0 \<le> cin_inputDevice w \<and> cin_inputDevice w < Pa_GetDeviceCount w
      \<and> 0 \<le> cin_outputDevice w \<and> cin_outputDevice w < Pa_GetDeviceCount w)"

text \<open>
  The channel count of one side, the expression of lines 140 and 141 as a function of the
  device's channel maximum: 2 for a device that supports two channels or more, else 1 for
  one that supports a channel, else 0.
\<close>

definition resolvedChannels :: "int \<Rightarrow> int" where
  "resolvedChannels m = (if 2 \<le> m then 2 else if 0 < m then 1 else 0)"

text \<open>A request with both of its sample formats replaced.\<close>

definition withFormat :: "PaSampleFormat \<Rightarrow> OpenRequest \<Rightarrow> OpenRequest" where
  "withFormat fmt r =
     r\<lparr>rq_input := (rq_input r)\<lparr>sampleFormat := fmt\<rparr>,
       rq_output := (rq_output r)\<lparr>sampleFormat := fmt\<rparr>\<rparr>"

text \<open>
  Example surroundings: two devices, the user selects the first for input and the second
  for output, and a driver given by its answer to \<^verbatim>\<open>Pa_OpenStream\<close>: one that accepts every
  request, one that accepts only \<^verbatim>\<open>paInt16\<close> streams.
\<close>

definition exampleDevice :: "int \<Rightarrow> int \<Rightarrow> rat \<Rightarrow> PaDeviceInfo" where
  "exampleDevice ins outs rate =
     \<lparr>maxInputChannels = ins, maxOutputChannels = outs, defaultSampleRate = Finite rate,
      defaultLowInputLatency = Finite (1 / 100), defaultLowOutputLatency = Finite (1 / 50)\<rparr>"

definition exampleWorld ::
  "PaDeviceInfo \<Rightarrow> PaDeviceInfo \<Rightarrow> (OpenRequest \<Rightarrow> PaError) \<Rightarrow> nat World" where
  "exampleWorld inDev outDev driver =
     \<lparr>Pa_Initialize = paNoError, Pa_GetDeviceCount = 2,
      Pa_GetDeviceInfo = (\<lambda>i. if i = 0 then inDev else outDev),
      cin_inputDevice = 0, cin_outputDevice = 1, soundtouch_createInstance = 0,
      Pa_OpenStream = driver\<rparr>"

definition acceptingDriver :: "OpenRequest \<Rightarrow> PaError" where
  "acceptingDriver r = paNoError"

definition int16OnlyDriver :: "OpenRequest \<Rightarrow> PaError" where
  "int16OnlyDriver r =
     (if sampleFormat (rq_input r) = paInt16 \<and> sampleFormat (rq_output r) = paInt16
      then paNoError else paSampleFormatNotSupported)"

text \<open>An engine that holds nothing back and hands nothing out.\<close>

definition silentEngine :: "unit SoundTouch" where
  "silentEngine = \<lparr>
     soundtouch_putSamples = (\<lambda>h xs maxFrames. h),
     soundtouch_receiveSamples = (\<lambda>h buf maxFrames. (h, buf, 0)) \<rparr>"

section \<open>Properties of the rounding and of the format converter\<close>

lemma rhe_ge: "of_int m \<le> x \<Longrightarrow> m \<le> rhe x"
proof -
  assume "of_int m \<le> x"
  then have "m \<le> \<lfloor>x\<rfloor>" by (simp add: le_floor_iff)
  then show ?thesis by (simp add: rhe_def Let_def)
qed

lemma rhe_le: "x \<le> of_int m \<Longrightarrow> rhe x \<le> m"
proof -
  assume h: "x \<le> of_int m"
  show ?thesis
  proof (cases "x = of_int m")
    case True
    then show ?thesis by (simp add: rhe_def Let_def)
  next
    case False
    with h have "x < of_int m" by simp
    then have "\<lfloor>x\<rfloor> < m" by (simp add: floor_less_iff)
    then show ?thesis by (simp add: rhe_def Let_def)
  qed
qed

lemma ilog2_le:
  assumes "0 < x"
  shows "2 powi (ilog2 x) \<le> x"
proof -
  obtain a b where q: "quotient_of x = (a, b)" by (cases "quotient_of x")
  then have b: "0 < b" by (rule quotient_of_denom_pos)
  from q have x: "x = of_int a / of_int b" by (rule quotient_of_div)
  with assms b have a: "0 < a" by (simp add: zero_less_divide_iff)
  define d where "d = bitlen a - bitlen b"
  show ?thesis
  proof (cases "(2::rat) powi d \<le> x")
    case True
    then show ?thesis by (simp add: ilog2_def q d_def)
  next
    case False
    have la: "(2::int) ^ nat (bitlen a - 1) \<le> a" using bitlen_bounds [OF a] by simp
    have lb: "b < 2 ^ nat (bitlen b)" using bitlen_bounds [OF b] by simp
    have pa: "1 \<le> bitlen a" using a bitlen_eq_zero_iff [of a] bitlen_nonneg [of a] by linarith
    have pb: "0 \<le> bitlen b" by (rule bitlen_nonneg)
    have ra: "(2::rat) powi (bitlen a - 1) \<le> of_int a"
    proof -
      have "(of_int ((2::int) ^ nat (bitlen a - 1)) :: rat) \<le> of_int a"
        using la by (simp only: of_int_le_iff)
      moreover have "(2::rat) powi (bitlen a - 1) = 2 ^ nat (bitlen a - 1)"
        using pa by (simp add: power_int_def)
      ultimately show ?thesis by simp
    qed
    have rb: "of_int b \<le> (2::rat) powi (bitlen b)"
    proof -
      have "b \<le> 2 ^ nat (bitlen b)" using lb by simp
      then have "(of_int b :: rat) \<le> of_int ((2::int) ^ nat (bitlen b))"
        by (simp only: of_int_le_iff)
      moreover have "(2::rat) powi (bitlen b) = 2 ^ nat (bitlen b)"
        using pb by (simp add: power_int_def)
      ultimately show ?thesis by simp
    qed
    have "(2::rat) powi (d - 1) = 2 powi (bitlen a - 1) / 2 powi (bitlen b)"
      by (simp add: d_def power_int_diff)
    also have "\<dots> \<le> of_int a / 2 powi (bitlen b)"
      using ra by (simp add: divide_right_mono)
    also have "\<dots> \<le> of_int a / of_int b"
      using rb a b by (simp add: divide_left_mono)
    finally have "(2::rat) powi (d - 1) \<le> x" using x by simp
    with False show ?thesis by (simp add: ilog2_def q d_def)
  qed
qed

lemma ilog2_less:
  assumes "0 < x" and "x < 2 powi z"
  shows "ilog2 x < z"
proof (rule ccontr)
  assume "\<not> ilog2 x < z"
  then have "z \<le> ilog2 x" by simp
  then have "(2::rat) powi z \<le> 2 powi (ilog2 x)"
    by (intro power_int_increasing) simp_all
  also have "\<dots> \<le> x" using assms(1) by (rule ilog2_le)
  finally show False using assms(2) by simp
qed

text \<open>
  Rounding respects every bound that is itself a binary32 number of the same or a coarser
  grid: here the multiples of \<open>2\<^sup>-\<^sup>j\<close> of magnitude below \<open>2\<^sup>2\<^sup>4\<^sup>-\<^sup>j\<close>.
\<close>

lemma round32_between:
  assumes lo: "of_int lo / 2 ^ j \<le> x" and hi: "x \<le> of_int hi / 2 ^ j"
    and blo: "- (2 ^ 24) < lo" and bhi: "hi < 2 ^ 24" and j: "j \<le> 149"
  shows "\<exists>r. round32 x = Finite r \<and> of_int lo / 2 ^ j \<le> r \<and> r \<le> of_int hi / 2 ^ j"
proof (cases "x = 0")
  case True
  with lo hi show ?thesis by (simp add: round32_def)
next
  case False
  define e where "e = max (ilog2 \<bar>x\<bar>) (- 126)"
  define k where "k = nat (23 - e)"
  define r where "r = (of_int (rhe (x * 2 ^ k)) :: rat) / 2 ^ k"
  have h1: "(of_int hi :: rat) < of_int ((2::int) ^ 24)" using bhi by (simp only: of_int_less_iff)
  have "(of_int hi :: rat) / 2 ^ j < of_int ((2::int) ^ 24) / 2 ^ j"
    by (rule divide_strict_right_mono [OF h1]) simp
  then have hj: "(of_int hi :: rat) / 2 ^ j < 2 ^ 24 / 2 ^ j" by simp
  from hi hj have xhi: "x < 2 ^ 24 / 2 ^ j" by simp
  have l1: "(of_int (- ((2::int) ^ 24)) :: rat) < of_int lo" using blo by (simp only: of_int_less_iff)
  have "(of_int (- ((2::int) ^ 24)) :: rat) / 2 ^ j < of_int lo / 2 ^ j"
    by (rule divide_strict_right_mono [OF l1]) simp
  then have lj: "- ((2::rat) ^ 24) / 2 ^ j < of_int lo / 2 ^ j" by simp
  from lo lj have xlo: "- ((2::rat) ^ 24) / 2 ^ j < x" by simp
  have p: "(2::rat) powi (24 - int j) = 2 ^ 24 / 2 ^ j"
    by (simp add: power_int_diff)
  from xhi xlo have ax: "\<bar>x\<bar> < 2 powi (24 - int j)" by (simp add: p abs_less_iff)
  have "ilog2 \<bar>x\<bar> < 24 - int j" using False ax by (intro ilog2_less) simp_all
  with j have e: "e \<le> 23 - int j" by (simp add: e_def)
  then have kj: "j \<le> k" by (simp add: k_def)
  from e have u: "(2::rat) powi (e - 23) = 1 / 2 ^ k"
    by (simp add: k_def power_int_def field_simps)
  have sc: "(2::rat) ^ k = 2 ^ (k - j) * 2 ^ j" using kj by (simp flip: power_add)
  have "of_int (lo * 2 ^ (k - j)) \<le> x * 2 ^ k" using lo by (simp add: sc field_simps)
  then have "lo * 2 ^ (k - j) \<le> rhe (x * 2 ^ k)" by (rule rhe_ge)
  then have "(of_int (lo * 2 ^ (k - j)) :: rat) \<le> of_int (rhe (x * 2 ^ k))"
    by (simp only: of_int_le_iff)
  then have rlo: "of_int lo / 2 ^ j \<le> r" by (simp add: r_def sc field_simps)
  have "x * 2 ^ k \<le> of_int (hi * 2 ^ (k - j))" using hi by (simp add: sc field_simps)
  then have "rhe (x * 2 ^ k) \<le> hi * 2 ^ (k - j)" by (rule rhe_le)
  then have "(of_int (rhe (x * 2 ^ k)) :: rat) \<le> of_int (hi * 2 ^ (k - j))"
    by (simp only: of_int_le_iff)
  then have rhi: "r \<le> of_int hi / 2 ^ j" by (simp add: r_def sc field_simps)
  have j1: "(1::rat) \<le> 2 ^ j" by simp
  have j2: "(2::rat) ^ 24 / 2 ^ j \<le> 2 ^ 24" using j1 by (simp add: field_simps)
  have "(2::rat) ^ 24 < 2 ^ 128" by simp
  with hj j2 rhi have no: "\<not> 2 ^ 128 \<le> r" by linarith
  have "- ((2::rat) ^ 128) < - (2 ^ 24)" by simp
  with lj j2 rlo have nu: "\<not> r \<le> - (2 ^ 128)" by linarith
  have "round32 x = Finite r"
    using False no nu
    by (simp add: round32_def Let_def e_def [symmetric] u r_def)
  with rlo rhi show ?thesis by blast
qed

lemma round32_between_ints:
  assumes "of_int lo \<le> x" and "x \<le> of_int hi" and "- (2 ^ 24) < lo" and "hi < 2 ^ 24"
  shows "\<exists>r. round32 x = Finite r \<and> of_int lo \<le> r \<and> r \<le> of_int hi"
  using round32_between [of lo 0 x hi] assms by simp

lemma round32_exact:
  assumes "- (2 ^ 24) < m" and "m < 2 ^ 24" and "j \<le> 149"
  shows "round32 (of_int m / 2 ^ j) = Finite (of_int m / 2 ^ j)"
  using round32_between [of m j "of_int m / 2 ^ j" m] assms by auto

lemma trunc_between:
  assumes "of_int lo \<le> r" and "r \<le> of_int hi"
  shows "lo \<le> trunc r \<and> trunc r \<le> hi"
proof (cases "0 \<le> r")
  case True
  have "\<lfloor>r\<rfloor> \<le> hi" using assms(2) by (simp add: floor_le_iff) 
  moreover have "lo \<le> \<lfloor>r\<rfloor>" using assms(1) by (simp add: le_floor_iff)
  ultimately show ?thesis using True by (simp add: trunc_def)
next
  case False
  have "\<lceil>r\<rceil> \<le> hi" using assms(2) by (simp add: ceiling_le_iff)
  moreover have "lo \<le> \<lceil>r\<rceil>" using assms(1) by (simp add: le_ceiling_iff)
  ultimately show ?thesis using False by (simp add: trunc_def)
qed


lemma sint16_bounds: "- 32768 \<le> sint (s :: 16 word) \<and> sint s \<le> 32767"
  using sint_ge [of s] sint_lt [of s] by simp

lemma sint16_of_int:
  assumes "- 32768 \<le> t" and "t \<le> 32767"
  shows "sint (word_of_int t :: 16 word) = t"
  using assms by (simp add: sint_sbintrunc' signed_take_bit_int_eq_self)

lemma toNormalized_exact: "toNormalized s = Finite (of_int (sint s) / 32768)"
proof -
  have b: "- (2 ^ 24) < sint s" "sint s < 2 ^ 24" using sint16_bounds [of s] by simp_all
  have "round32 (of_int (sint s) / 2 ^ 0) = Finite (of_int (sint s) / 2 ^ 0)"
    using b by (intro round32_exact) simp_all
  then have c: "int_to_float32 (sint s) = Finite (of_int (sint s))"
    by (simp add: int_to_float32_def)
  have "round32 (of_int (sint s) / 2 ^ 15) = Finite (of_int (sint s) / 2 ^ 15)"
    using b by (intro round32_exact) simp_all
  then show ?thesis by (simp add: toNormalized_def c)
qed

lemma scale_to_int16:
  assumes "of_int lo \<le> r * 32767" and "r * 32767 \<le> of_int hi"
    and "- 32768 \<le> lo" and "hi \<le> 32767"
  shows "\<exists>w. float_to_int16 (fmul32 (Finite r) (Finite 32767)) = Some w
    \<and> lo \<le> sint w \<and> sint w \<le> hi"
proof -
  obtain q where q: "round32 (r * 32767) = Finite q" "of_int lo \<le> q" "q \<le> of_int hi"
    using round32_between_ints [of lo "r * 32767" hi] assms by auto
  then have t: "lo \<le> trunc q" "trunc q \<le> hi" using trunc_between [of lo q hi] by simp_all
  with assms have "- 32768 \<le> trunc q" "trunc q \<le> 32767" by simp_all
  then have "float_to_int16 (Finite q) = Some (word_of_int (trunc q))"
    and "sint (word_of_int (trunc q) :: 16 word) = trunc q"
    by (simp_all add: sint16_of_int)
  with q t show ?thesis by simp
qed

lemma toFixed16_in_range:
  assumes "- 1 \<le> r" and "r \<le> 1"
  shows "\<exists>w. toFixed16 (Finite r) = Some w \<and> - 32767 \<le> sint w \<and> sint w \<le> 32767"
proof -
  have "of_int (- 32767) \<le> r * 32767" "r * 32767 \<le> of_int 32767" using assms by simp_all
  then have "\<exists>w. float_to_int16 (fmul32 (Finite r) (Finite 32767)) = Some w
    \<and> - 32767 \<le> sint w \<and> sint w \<le> 32767"
    by (rule scale_to_int16) simp_all
  with assms show ?thesis by (simp add: toFixed16_def)
qed

lemma toFixed16_one: "float_to_int16 (fmul32 (Finite 1) (Finite 32767)) = Some 32767"
proof -
  obtain w :: "16 word" where w: "float_to_int16 (fmul32 (Finite 1) (Finite 32767)) = Some w"
    "32767 \<le> sint w" "sint w \<le> 32767"
    using scale_to_int16 [of 32767 1 32767] by auto
  then have "sint w = sint (32767 :: 16 word)" by simp
  then have "w = 32767" by (rule signed_word_eqI)
  with w(1) show ?thesis by (simp only:)
qed

lemma toFixed16_minus_one:
  "float_to_int16 (fmul32 (Finite (- 1)) (Finite 32767)) = Some (- 32767)"
proof -
  obtain w :: "16 word" where w: "float_to_int16 (fmul32 (Finite (- 1)) (Finite 32767)) = Some w"
    "- 32767 \<le> sint w" "sint w \<le> - 32767"
    using scale_to_int16 [of "- 32767" "- 1" "- 32767"] by auto
  then have "sint w = sint (- 32767 :: 16 word)" by simp
  then have "w = - 32767" by (rule signed_word_eqI)
  with w(1) show ?thesis by (simp only:)
qed

lemma toFixed16_above: "1 < r \<Longrightarrow> toFixed16 (Finite r) = Some 32767"
  by (simp add: toFixed16_def toFixed16_one del: fmul32.simps)

lemma toFixed16_below: "r < - 1 \<Longrightarrow> toFixed16 (Finite r) = Some (- 32767)"
  by (simp add: toFixed16_def toFixed16_minus_one del: fmul32.simps)

lemma toFixed16_PInf: "toFixed16 PInf = Some 32767"
  by (simp add: toFixed16_def toFixed16_one del: fmul32.simps)

lemma toFixed16_NInf: "toFixed16 NInf = Some (- 32767)"
  by (simp add: toFixed16_def toFixed16_minus_one del: fmul32.simps)

lemma toFixed16_NaN: "toFixed16 NaN = None"
  by (simp add: toFixed16_def)

lemma toFixed16_zero: "toFixed16 (Finite 0) = Some 0"
proof -
  obtain w :: "16 word" where w: "float_to_int16 (fmul32 (Finite 0) (Finite 32767)) = Some w"
    "0 \<le> sint w" "sint w \<le> 0"
    using scale_to_int16 [of 0 0 0] by auto
  then have "sint w = sint (0 :: 16 word)" by simp
  then have "w = 0" by (rule signed_word_eqI)
  with w(1) show ?thesis by (simp add: toFixed16_def del: fmul32.simps)
qed

text \<open>The conversion is undefined for NaN only.\<close>

lemma toFixed16_defined: "x \<noteq> NaN \<Longrightarrow> \<exists>w. toFixed16 x = Some w"
proof (cases x)
  case (Finite r)
  consider "r < - 1" | "- 1 \<le> r \<and> r \<le> 1" | "1 < r" by linarith
  then show ?thesis
  proof cases
    case 1
    with Finite show ?thesis by (simp add: toFixed16_below)
  next
    case 2
    with Finite toFixed16_in_range [of r] show ?thesis by auto
  next
    case 3
    with Finite show ?thesis by (simp add: toFixed16_above)
  qed
next
  case PInf
  then show ?thesis by (simp add: toFixed16_PInf)
next
  case NInf
  then show ?thesis by (simp add: toFixed16_NInf)
next
  case NaN
  assume "x \<noteq> NaN"
  with NaN show ?thesis by simp
qed

lemma toNormalized_zero: "toNormalized 0 = Finite 0"
  by (simp add: toNormalized_exact)

text \<open>
  Claim C5.  The Normalized-to-Fixed16 conversion clamps before it scales and truncates:
  for every normalized input in \<open>[-1, 1]\<close> the result is defined and lies in
  \<open>[-32767, 32767]\<close>; for every input above \<open>1\<close> (the positive infinity included)
  it is exactly \<open>32767\<close>, and for every input below \<open>-1\<close> (the negative infinity
  included) exactly \<open>-32767\<close>.
\<close>

theorem toFixed16_clamps:
  "(- 1 \<le> r \<and> r \<le> 1 \<longrightarrow>
      (\<exists>w. toFixed16 (Finite r) = Some w \<and> - 32767 \<le> sint w \<and> sint w \<le> 32767))
   \<and> (1 < r \<longrightarrow> toFixed16 (Finite r) = Some 32767)
   \<and> (r < - 1 \<longrightarrow> toFixed16 (Finite r) = Some (- 32767))
   \<and> toFixed16 PInf = Some 32767
   \<and> toFixed16 NInf = Some (- 32767)"
  by (simp add: toFixed16_in_range toFixed16_above toFixed16_below toFixed16_PInf
      toFixed16_NInf)

text \<open>The boundary inputs \<open>1.5\<close> and \<open>-1.5\<close>, and \<open>0.5\<close> inside the range.\<close>

theorem toFixed16_clamps_witness:
  "toFixed16 (Finite (3 / 2)) = Some 32767 \<and> toFixed16 (Finite (- 3 / 2)) = Some (- 32767)
   \<and> (\<exists>w. toFixed16 (Finite (1 / 2)) = Some w \<and> - 32767 \<le> sint w \<and> sint w \<le> 32767)"
  using toFixed16_clamps [of "3 / 2"] toFixed16_clamps [of "- 3 / 2"] toFixed16_clamps [of "1 / 2"]
  by simp

text \<open>
  Claim C3.  For every 16-bit signed sample \<open>s\<close>, normalizing it (division by
  \<open>32768\<close>) and converting the result back to Fixed16 (clamp, scale by \<open>32767\<close>, truncate
  toward zero) is defined and gives a sample that differs from \<open>s\<close> by at most one.
\<close>

theorem fixed16_round_trip:
  "\<exists>t. toFixed16 (toNormalized s) = Some t \<and> \<bar>sint t - sint s\<bar> \<le> 1"
proof -
  define i where "i = sint s"
  define r :: rat where "r = of_int i / 32768"
  have b: "- 32768 \<le> i" "i \<le> 32767" using sint16_bounds [of s] by (simp_all add: i_def)
  then have rb: "- 1 \<le> r" "r \<le> 1" by (simp_all add: r_def)
  have n: "toNormalized s = Finite r" by (simp add: toNormalized_exact i_def r_def)
  have f: "toFixed16 (Finite r) = float_to_int16 (fmul32 (Finite r) (Finite 32767))"
    using rb by (simp add: toFixed16_def)
  show ?thesis
  proof (cases "0 \<le> i")
    case True
    have "of_int (i - 1) \<le> r * 32767" "r * 32767 \<le> of_int i"
      using True b by (simp_all add: r_def)
    then have "\<exists>w. float_to_int16 (fmul32 (Finite r) (Finite 32767)) = Some w
      \<and> i - 1 \<le> sint w \<and> sint w \<le> i"
      using b True by (intro scale_to_int16) simp_all
    then show ?thesis by (auto simp add: n f i_def)
  next
    case False
    have "of_int i \<le> r * 32767" "r * 32767 \<le> of_int (i + 1)"
      using False b by (simp_all add: r_def)
    then have "\<exists>w. float_to_int16 (fmul32 (Finite r) (Finite 32767)) = Some w
      \<and> i \<le> sint w \<and> sint w \<le> i + 1"
      using b False by (intro scale_to_int16) simp_all
    then show ?thesis by (auto simp add: n f i_def)
  qed
qed

section \<open>Properties of the callback\<close>

lemma padLoop_length: "length (padLoop i n xs) = length xs"
proof (induction i n xs rule: padLoop.induct)
  case (1 i n outFloat)
  then show ?case by (simp add: padLoop.simps [of i n outFloat])
qed

lemma padLoop_nth:
  "0 \<le> i \<Longrightarrow> n \<le> int (length xs) \<Longrightarrow> k < length xs \<Longrightarrow>
     padLoop i n xs ! k = (if i \<le> int k \<and> int k < n then Finite 0 else xs ! k)"
proof (induction i n xs rule: padLoop.induct)
  case (1 i n outFloat)
  show ?case
  proof (cases "i < n")
    case True
    have "padLoop i n outFloat ! k = padLoop (i + 1) n (outFloat[nat i := Finite 0]) ! k"
      using True by (simp add: padLoop.simps [of i n outFloat])
    also have "\<dots> = (if i + 1 \<le> int k \<and> int k < n then Finite 0
        else outFloat[nat i := Finite 0] ! k)"
      using True "1.prems" by (intro "1.IH") simp_all
    also have "\<dots> = (if i \<le> int k \<and> int k < n then Finite 0 else outFloat ! k)"
    proof (cases "int k = i")
      case True
      then have "nat i = k" by auto
      with True \<open>i < n\<close> "1.prems"(3) show ?thesis by auto
    next
      case False
      then have "nat i \<noteq> k" using "1.prems"(1) by auto
      moreover have "i + 1 \<le> int k \<longleftrightarrow> i \<le> int k" using False by auto
      ultimately show ?thesis by simp
    qed
    finally show ?thesis .
  next
    case False
    then show ?thesis by (auto simp add: padLoop.simps [of i n outFloat])
  qed
qed

lemma padLoop_eq:
  assumes "0 \<le> i"
  shows "padLoop i (int (length xs)) xs
    = take (nat i) xs @ replicate (length xs - nat i) (Finite 0)"
proof (rule nth_equalityI)
  show "length (padLoop i (int (length xs)) xs)
    = length (take (nat i) xs @ replicate (length xs - nat i) (Finite 0))"
    by (simp add: padLoop_length)
next
  fix k
  assume "k < length (padLoop i (int (length xs)) xs)"
  then have k: "k < length xs" by (simp add: padLoop_length)
  then show "padLoop i (int (length xs)) xs ! k
    = (take (nat i) xs @ replicate (length xs - nat i) (Finite 0)) ! k"
    using assms by (auto simp add: padLoop_nth nth_append)
qed

lemma padSilence_eq:
  assumes "0 \<le> received" and "0 \<le> chans" and "received * chans < 2 ^ 31"
  shows "padSilence received chans xs
    = Inr (take (nat (received * chans)) xs
        @ replicate (length xs - nat (received * chans)) (Finite 0))"
proof -
  have "0 \<le> received * chans" using assms by simp
  then show ?thesis using assms(3) by (simp add: padSilence_def Let_def padLoop_eq)
qed

lemma those_map_defined:
  "(\<forall>x\<in>set xs. \<exists>w. f x = Some w) \<Longrightarrow>
     \<exists>ws. those (map f xs) = Some ws \<and> length ws = length xs
       \<and> (\<forall>i<length xs. f (xs ! i) = Some (ws ! i))"
proof (induction xs)
  case Nil
  then show ?case by simp
next
  case (Cons a xs)
  then obtain ws where ws: "those (map f xs) = Some ws" "length ws = length xs"
    "\<forall>i<length xs. f (xs ! i) = Some (ws ! i)" by auto
  from Cons.prems obtain w where w: "f a = Some w" by auto
  have "those (map f (a # xs)) = Some (w # ws)" using w ws by simp
  moreover have "\<forall>i<length (a # xs). f ((a # xs) ! i) = Some ((w # ws) ! i)"
    using w ws by (auto simp add: nth_Cons split: nat.splits)
  ultimately show ?case using ws by auto
qed

lemma audioCallback_unfold:
  assumes "0 \<le> channels data" and "int framesPerBuffer * channels data < 2 ^ 31"
    and "convertInput (format data) input (framesPerBuffer * nat (channels data)) = Inr inFloat"
    and "soundtouch_receiveSamples st (feed st (hST data) inFloat framesPerBuffer)
        (replicate (framesPerBuffer * nat (channels data)) (Finite 0)) framesPerBuffer
      = (h', drained, received)"
    and "length drained = framesPerBuffer * nat (channels data)"
    and "0 \<le> received" and "received * channels data < 2 ^ 31"
  shows "audioCallback st input output framesPerBuffer data
    = (case convertOutput (format data)
          (take (nat (received * channels data)) drained
            @ replicate (length drained - nat (received * channels data)) (Finite 0)) output of
        Inl f \<Rightarrow> Inl f
      | Inr out \<Rightarrow> Inr (h', out, paContinue))"
proof -
  have "padSilence received (channels data) drained
    = Inr (take (nat (received * channels data)) drained
        @ replicate (length drained - nat (received * channels data)) (Finite 0))"
    using assms(1,6,7) by (intro padSilence_eq) simp_all
  then show ?thesis
    using assms(1,2,3,4,5)
    by (simp add: audioCallback_def Let_def drainAndRender_def)
qed

text \<open>A count of at most \<^verbatim>\<open>framesPerBuffer\<close> frames keeps \<^verbatim>\<open>received * channels\<close> in range.\<close>

lemma received_in_range:
  assumes "0 \<le> chans" and "int framesPerBuffer * chans < 2 ^ 31"
    and "received \<le> int framesPerBuffer"
  shows "received * chans < 2 ^ 31"
proof -
  have "received * chans \<le> int framesPerBuffer * chans"
    using assms(1,3) by (simp add: mult_right_mono)
  with assms(2) show ?thesis by linarith
qed

lemma padded_nth:
  assumes "0 \<le> rc" and "i < length drained"
  shows "(take (nat rc) drained @ replicate (length drained - nat rc) (Finite 0)) ! i
    = (if int i < rc then drained ! i else Finite 0)"
  using assms by (auto simp add: nth_append)

lemma convertOutput_total:
  assumes "bufferHolds fmt obuf (length xs)" and "fmt = paInt16 \<longrightarrow> NaN \<notin> set xs"
  shows "\<exists>out. convertOutput fmt xs obuf = Inr out"
proof -
  consider (f32) "fmt = paFloat32" | (i16) "fmt = paInt16"
    | (other) "fmt \<noteq> paFloat32 \<and> fmt \<noteq> paInt16" by blast
  then show ?thesis
  proof cases
    case f32
    with assms(1) show ?thesis
      by (auto simp add: bufferHolds_def convertOutput_def split: samples.splits)
  next
    case i16
    then have ne: "fmt \<noteq> paFloat32" by (simp add: paInt16_def paFloat32_def)
    from i16 assms(2) have "\<forall>x\<in>set xs. \<exists>w. toFixed16 x = Some w"
      by (auto intro: toFixed16_defined)
    then obtain ws where "those (map toFixed16 xs) = Some ws"
      using those_map_defined [of xs toFixed16] by blast
    with i16 ne assms(1) show ?thesis
      by (auto simp add: bufferHolds_def convertOutput_def split: samples.splits)
  next
    case other
    then show ?thesis by (simp add: convertOutput_def)
  qed
qed

lemma replicate_two: "replicate 2 x = [x, x]"
  by (simp add: numeral_2_eq_2)

text \<open>
  Claim C2.  In a callback invocation in which the engine hands back \<open>received\<close> frames,
  \<open>0 \<le> received \<le> framesPerBuffer\<close>, the callback succeeds, and of the first
  \<open>framesPerBuffer * channels\<close> samples of the output buffer every one at an index from
  \<open>received * channels\<close> on is zero, and every one below that index is the sample the
  engine drained (copied in \<^verbatim>\<open>paFloat32\<close> mode, converted by \<open>toFixed16\<close> in \<^verbatim>\<open>paInt16\<close>
  mode).  With \<open>received = 0\<close> all of them are zero; with \<open>received = framesPerBuffer\<close>
  none is padding.
\<close>

theorem callback_pads_with_silence:
  assumes rng: "0 \<le> channels data" "int framesPerBuffer * channels data < 2 ^ 31"
    and n: "n = framesPerBuffer * nat (channels data)"
    and inp: "convertInput (format data) input n = Inr inFloat"
    and eng: "soundtouch_receiveSamples st (feed st (hST data) inFloat framesPerBuffer)
        (replicate n (Finite 0)) framesPerBuffer = (h', drained, received)"
    and len: "length drained = n"
    and rcv: "0 \<le> received" "received \<le> int framesPerBuffer"
  shows "(format data = paFloat32 \<and> n \<le> length out \<longrightarrow>
      (\<exists>out'. audioCallback st input (Float32Samples out) framesPerBuffer data
          = Inr (h', Float32Samples out', paContinue)
        \<and> length out' = length out
        \<and> (\<forall>i<n. out' ! i
            = (if int i < received * channels data then drained ! i else Finite 0))))
    \<and> (format data = paInt16 \<and> n \<le> length out16
        \<and> (\<forall>i<n. int i < received * channels data \<longrightarrow> drained ! i \<noteq> NaN) \<longrightarrow>
      (\<exists>out'. audioCallback st input (Int16Samples out16) framesPerBuffer data
          = Inr (h', Int16Samples out', paContinue)
        \<and> length out' = length out16
        \<and> (\<forall>i<n. if int i < received * channels data
            then toFixed16 (drained ! i) = Some (out' ! i) else out' ! i = 0)))"
proof -
  define rc where "rc = received * channels data"
  define padded where
    "padded = take (nat rc) drained @ replicate (length drained - nat rc) (Finite 0)"
  have rc0: "0 \<le> rc" using rng(1) rcv(1) by (simp add: rc_def)
  have plen: "length padded = n" using len by (simp add: padded_def)
  have pnth: "padded ! i = (if int i < rc then drained ! i else Finite 0)" if "i < n" for i
    using padded_nth [OF rc0, of i drained] that len unfolding padded_def by simp
  have unf: "audioCallback st input obuf framesPerBuffer data
      = (case convertOutput (format data) padded obuf of
          Inl f \<Rightarrow> Inl f | Inr out \<Rightarrow> Inr (h', out, paContinue))" for obuf
    unfolding padded_def rc_def
    using rng inp eng len rcv(1) received_in_range [OF rng rcv(2)]
    unfolding n by (rule audioCallback_unfold)
  show ?thesis
  proof (intro conjI impI)
    assume a: "format data = paFloat32 \<and> n \<le> length out"
    then have "audioCallback st input (Float32Samples out) framesPerBuffer data
      = Inr (h', Float32Samples (padded @ drop n out), paContinue)"
      by (simp add: unf convertOutput_def plen)
    moreover have "length (padded @ drop n out) = length out" using a plen by simp
    moreover have "\<forall>i<n. (padded @ drop n out) ! i
        = (if int i < rc then drained ! i else Finite 0)"
      using plen pnth by (simp add: nth_append)
    ultimately show "\<exists>out'. audioCallback st input (Float32Samples out) framesPerBuffer data
          = Inr (h', Float32Samples out', paContinue)
        \<and> length out' = length out
        \<and> (\<forall>i<n. out' ! i
            = (if int i < received * channels data then drained ! i else Finite 0))"
      unfolding rc_def by blast
  next
    assume a: "format data = paInt16 \<and> n \<le> length out16
        \<and> (\<forall>i<n. int i < received * channels data \<longrightarrow> drained ! i \<noteq> NaN)"
    have "\<forall>x\<in>set padded. \<exists>w. toFixed16 x = Some w"
    proof
      fix x
      assume "x \<in> set padded"
      then obtain i where i: "i < n" "x = padded ! i"
        using plen by (auto simp add: in_set_conv_nth)
      then have "x \<noteq> NaN" using a pnth [of i] by (auto simp add: rc_def)
      then show "\<exists>w. toFixed16 x = Some w" by (rule toFixed16_defined)
    qed
    then obtain ws where ws: "those (map toFixed16 padded) = Some ws" "length ws = n"
      "\<forall>i<n. toFixed16 (padded ! i) = Some (ws ! i)"
      using those_map_defined [of padded toFixed16] plen by auto
    have f: "paInt16 \<noteq> paFloat32" by (simp add: paInt16_def paFloat32_def)
    have "audioCallback st input (Int16Samples out16) framesPerBuffer data
      = Inr (h', Int16Samples (ws @ drop n out16), paContinue)"
      using a ws(1) f by (simp add: unf convertOutput_def plen)
    moreover have "length (ws @ drop n out16) = length out16" using a ws(2) by simp
    moreover have "\<forall>i<n. if int i < rc
        then toFixed16 (drained ! i) = Some ((ws @ drop n out16) ! i)
        else (ws @ drop n out16) ! i = 0"
    proof (intro allI impI)
      fix i
      assume i: "i < n"
      then have e: "(ws @ drop n out16) ! i = ws ! i" using ws(2) by (simp add: nth_append)
      from i ws(3) have t: "toFixed16 (padded ! i) = Some (ws ! i)" by simp
      show "if int i < rc
        then toFixed16 (drained ! i) = Some ((ws @ drop n out16) ! i)
        else (ws @ drop n out16) ! i = 0"
        using t pnth [OF i] e by (auto simp add: toFixed16_zero)
    qed
    ultimately show "\<exists>out'. audioCallback st input (Int16Samples out16) framesPerBuffer data
          = Inr (h', Int16Samples out', paContinue)
        \<and> length out' = length out16
        \<and> (\<forall>i<n. if int i < received * channels data
            then toFixed16 (drained ! i) = Some (out' ! i) else out' ! i = 0)"
      unfolding rc_def by blast
  qed
qed

text \<open>A one-channel run in each format: the engine hands out one frame of two.\<close>

theorem callback_pads_with_silence_witness:
  "(\<exists>out'. audioCallback fifoEngine (Some (Float32Samples [Finite (1 / 2), Finite (1 / 4)]))
        (Float32Samples [Finite 9, Finite 9]) 2 monoFloat32
      = Inr ([Finite (1 / 4)], Float32Samples out', paContinue)
      \<and> out' ! 0 = Finite (1 / 2) \<and> out' ! 1 = Finite 0)
   \<and> (\<exists>out'. audioCallback fifoEngine (Some (Int16Samples [16384, 8192]))
        (Int16Samples [7, 7]) 2 monoInt16
      = Inr ([Finite (1 / 4)], Int16Samples out', paContinue)
      \<and> toFixed16 (Finite (1 / 2)) = Some (out' ! 0) \<and> out' ! 1 = 0)"
proof -
  let ?d = "[Finite (1 / 2), Finite 0]"
  let ?i = "[Finite (1 / 2), Finite (1 / 4)]"
  have r1: "0 \<le> channels monoFloat32" "int 2 * channels monoFloat32 < 2 ^ 31"
    and n1: "(2::nat) = 2 * nat (channels monoFloat32)"
    and f1: "format monoFloat32 = paFloat32"
    by (simp_all add: monoFloat32_def)
  have i1: "convertInput (format monoFloat32) (Some (Float32Samples ?i)) 2 = Inr ?i"
    by (simp add: monoFloat32_def convertInput_def Let_def)
  have e1: "soundtouch_receiveSamples fifoEngine (feed fifoEngine (hST monoFloat32) ?i 2)
      (replicate 2 (Finite 0)) 2 = ([Finite (1 / 4)], ?d, 1)"
    by (simp add: fifoEngine_def feed_def monoFloat32_def Let_def replicate_two)
  note t1 = callback_pads_with_silence [OF r1 n1 i1 e1, of "[Finite 9, Finite 9]",
      THEN conjunct1]
  from t1 f1 obtain out1 where o1:
    "audioCallback fifoEngine (Some (Float32Samples ?i)) (Float32Samples [Finite 9, Finite 9]) 2
        monoFloat32 = Inr ([Finite (1 / 4)], Float32Samples out1, paContinue)"
    "\<forall>i<2. out1 ! i = (if int i < 1 * channels monoFloat32 then ?d ! i else Finite 0)"
    by auto
  from o1(2) have "out1 ! 0 = Finite (1 / 2)" "out1 ! 1 = Finite 0"
    by (simp_all add: monoFloat32_def)
  with o1(1) have a: "\<exists>out'. audioCallback fifoEngine (Some (Float32Samples ?i))
        (Float32Samples [Finite 9, Finite 9]) 2 monoFloat32
      = Inr ([Finite (1 / 4)], Float32Samples out', paContinue)
      \<and> out' ! 0 = Finite (1 / 2) \<and> out' ! 1 = Finite 0" by blast
  have r2: "0 \<le> channels monoInt16" "int 2 * channels monoInt16 < 2 ^ 31"
    and n2: "(2::nat) = 2 * nat (channels monoInt16)"
    and f2: "format monoInt16 = paInt16"
    by (simp_all add: monoInt16_def)
  have "toNormalized 16384 = Finite (1 / 2)" "toNormalized 8192 = Finite (1 / 4)"
    by (simp_all add: toNormalized_exact)
  then have i2: "convertInput (format monoInt16) (Some (Int16Samples [16384, 8192])) 2 = Inr ?i"
    by (simp add: monoInt16_def convertInput_def Let_def paInt16_def paFloat32_def)
  have e2: "soundtouch_receiveSamples fifoEngine (feed fifoEngine (hST monoInt16) ?i 2)
      (replicate 2 (Finite 0)) 2 = ([Finite (1 / 4)], ?d, 1)"
    by (simp add: fifoEngine_def feed_def monoInt16_def Let_def replicate_two)
  note t2 = callback_pads_with_silence [OF r2 n2 i2 e2, of _ "[7, 7]", THEN conjunct2]
  have "\<forall>i<2. int i < 1 * channels monoInt16 \<longrightarrow> ?d ! i \<noteq> NaN"
    by (simp add: monoInt16_def)
  with t2 f2 obtain out2 where o2:
    "audioCallback fifoEngine (Some (Int16Samples [16384, 8192])) (Int16Samples [7, 7]) 2
        monoInt16 = Inr ([Finite (1 / 4)], Int16Samples out2, paContinue)"
    "\<forall>i<2. if int i < 1 * channels monoInt16
        then toFixed16 (?d ! i) = Some (out2 ! i) else out2 ! i = 0"
    by auto
  from o2(2) [THEN spec, of 0] o2(2) [THEN spec, of 1]
  have "toFixed16 (Finite (1 / 2)) = Some (out2 ! 0)" "out2 ! 1 = 0"
    by (simp_all add: monoInt16_def)
  with o2(1) have b: "\<exists>out'. audioCallback fifoEngine (Some (Int16Samples [16384, 8192]))
        (Int16Samples [7, 7]) 2 monoInt16
      = Inr ([Finite (1 / 4)], Int16Samples out', paContinue)
      \<and> toFixed16 (Finite (1 / 2)) = Some (out' ! 0) \<and> out' ! 1 = 0" by blast
  from a b show ?thesis by (rule conjI)
qed

text \<open>
  Claim C8.  With a null input pointer the normalized input buffer is
  \<open>framesPerBuffer * channels\<close> zeros in every format, the invocation is the one of an
  input buffer of zeros (of \<^verbatim>\<open>float\<close> zeros in \<^verbatim>\<open>paFloat32\<close> mode, of \<^verbatim>\<open>int16_t\<close> zeros
  in \<^verbatim>\<open>paInt16\<close> mode), and the buffer of zeros, when it is not empty, is what
  \<^verbatim>\<open>soundtouch_putSamples\<close> receives before the engine is drained.
\<close>

theorem null_input_is_silence:
  assumes n: "n = framesPerBuffer * nat (channels data)"
  shows "convertInput (format data) None n = Inr (replicate n (Finite 0))
    \<and> (format data = paFloat32 \<longrightarrow>
        audioCallback st None obuf framesPerBuffer data
        = audioCallback st (Some (Float32Samples (replicate n (Finite 0)))) obuf
            framesPerBuffer data)
    \<and> (format data = paInt16 \<longrightarrow>
        audioCallback st None obuf framesPerBuffer data
        = audioCallback st (Some (Int16Samples (replicate n 0))) obuf framesPerBuffer data)
    \<and> (0 \<le> channels data \<and> int framesPerBuffer * channels data < 2 ^ 31 \<and> 0 < n \<longrightarrow>
        audioCallback st None obuf framesPerBuffer data
        = drainAndRender st
            (soundtouch_putSamples st (hST data) (replicate n (Finite 0)) framesPerBuffer)
            obuf framesPerBuffer data n)"
proof (intro conjI impI)
  show c: "convertInput (format data) None n = Inr (replicate n (Finite 0))"
    by (simp add: convertInput_def Let_def)
  {
    assume "format data = paFloat32"
    then have "convertInput (format data) (Some (Float32Samples (replicate n (Finite 0)))) n
      = Inr (replicate n (Finite 0))"
      by (simp add: convertInput_def Let_def)
    with c show "audioCallback st None obuf framesPerBuffer data
        = audioCallback st (Some (Float32Samples (replicate n (Finite 0)))) obuf
            framesPerBuffer data"
      unfolding n by (simp add: audioCallback_def Let_def)
  }
  {
    assume "format data = paInt16"
    then have "convertInput (format data) (Some (Int16Samples (replicate n 0))) n
      = Inr (replicate n (Finite 0))"
      by (simp add: convertInput_def Let_def paInt16_def paFloat32_def toNormalized_zero)
    with c show "audioCallback st None obuf framesPerBuffer data
        = audioCallback st (Some (Int16Samples (replicate n 0))) obuf framesPerBuffer data"
      unfolding n by (simp add: audioCallback_def Let_def)
  }
  {
    assume "0 \<le> channels data \<and> int framesPerBuffer * channels data < 2 ^ 31 \<and> 0 < n"
    with c show "audioCallback st None obuf framesPerBuffer data
        = drainAndRender st
            (soundtouch_putSamples st (hST data) (replicate n (Finite 0)) framesPerBuffer)
            obuf framesPerBuffer data n"
      unfolding n by (simp add: audioCallback_def Let_def feed_def)
  }
qed

text \<open>The same at a concrete stream, in \<^verbatim>\<open>paInt16\<close> mode.\<close>

theorem null_input_is_silence_witness:
  "convertInput (format monoInt16) None 2 = Inr [Finite 0, Finite 0]
   \<and> audioCallback fifoEngine None (Int16Samples [7, 7]) 2 monoInt16
     = audioCallback fifoEngine (Some (Int16Samples [0, 0])) (Int16Samples [7, 7]) 2 monoInt16
   \<and> audioCallback fifoEngine None (Int16Samples [7, 7]) 2 monoInt16
     = drainAndRender fifoEngine
         (soundtouch_putSamples fifoEngine (hST monoInt16) [Finite 0, Finite 0] 2)
         (Int16Samples [7, 7]) 2 monoInt16 2"
proof -
  have n: "(2::nat) = 2 * nat (channels monoInt16)" by (simp add: monoInt16_def)
  have f: "format monoInt16 = paInt16" by (simp add: monoInt16_def)
  have g: "0 \<le> channels monoInt16 \<and> int 2 * channels monoInt16 < 2 ^ 31 \<and> 0 < (2::nat)"
    by (simp add: monoInt16_def)
  have r: "replicate 2 x = [x, x]" for x :: 'a by (simp add: numeral_2_eq_2)
  note t = null_input_is_silence [OF n, of fifoEngine "Int16Samples [7, 7]"]
  from t f g have "convertInput (format monoInt16) None 2 = Inr (replicate 2 (Finite 0))
   \<and> audioCallback fifoEngine None (Int16Samples [7, 7]) 2 monoInt16
     = audioCallback fifoEngine (Some (Int16Samples (replicate 2 0))) (Int16Samples [7, 7]) 2
         monoInt16
   \<and> audioCallback fifoEngine None (Int16Samples [7, 7]) 2 monoInt16
     = drainAndRender fifoEngine
         (soundtouch_putSamples fifoEngine (hST monoInt16) (replicate 2 (Finite 0)) 2)
         (Int16Samples [7, 7]) 2 monoInt16 2"
    by blast
  then show ?thesis unfolding r .
qed

text \<open>
  Line 52 keeps an empty buffer from the engine, whatever the input was: with
  \<^verbatim>\<open>framesPerBuffer * channels = 0\<close> nothing is submitted.
\<close>

lemma feed_empty: "feed st h [] framesPerBuffer = h"
  by (simp add: feed_def)

text \<open>
  Claim C9.  Whatever the input, the format, the channel count and the engine's answer,
  a value the callback returns to the driver is \<^verbatim>\<open>paContinue\<close>; and it does return
  when driver and engine keep their contracts.
\<close>

theorem callback_returns_continue:
  "(\<forall>h'' out rc. audioCallback st input obuf framesPerBuffer data = Inr (h'', out, rc)
      \<longrightarrow> rc = paContinue)
   \<and> (driverContract input obuf framesPerBuffer data
      \<and> (\<forall>inFloat. convertInput (format data) input (framesPerBuffer * nat (channels data))
            = Inr inFloat
          \<longrightarrow> engineContract st (feed st (hST data) inFloat framesPerBuffer) framesPerBuffer data)
      \<longrightarrow> (\<exists>h'' out. audioCallback st input obuf framesPerBuffer data
            = Inr (h'', out, paContinue)))"
proof (intro conjI allI impI)
  fix h'' out rc
  assume "audioCallback st input obuf framesPerBuffer data = Inr (h'', out, rc)"
  then show "rc = paContinue"
    by (auto simp add: audioCallback_def Let_def drainAndRender_def
        split: if_splits sum.splits prod.splits)
next
  define n where "n = framesPerBuffer * nat (channels data)"
  assume a: "driverContract input obuf framesPerBuffer data
      \<and> (\<forall>inFloat. convertInput (format data) input (framesPerBuffer * nat (channels data))
            = Inr inFloat
          \<longrightarrow> engineContract st (feed st (hST data) inFloat framesPerBuffer) framesPerBuffer data)"
  then have rng: "0 \<le> channels data" "int framesPerBuffer * channels data < 2 ^ 31"
    and ib: "case input of None \<Rightarrow> True | Some buf \<Rightarrow> bufferHolds (format data) buf n"
    and ob: "bufferHolds (format data) obuf n"
    unfolding driverContract_def Let_def n_def by simp_all
  from ib obtain inFloat where inp: "convertInput (format data) input n = Inr inFloat"
    by (auto simp add: convertInput_def bufferHolds_def Let_def
        split: option.splits samples.splits if_splits)
  with a have "engineContract st (feed st (hST data) inFloat framesPerBuffer) framesPerBuffer data"
    by (simp add: n_def)
  then obtain h' drained received where
    eng: "soundtouch_receiveSamples st (feed st (hST data) inFloat framesPerBuffer)
        (replicate n (Finite 0)) framesPerBuffer = (h', drained, received)"
    and len: "length drained = n"
    and rcv: "0 \<le> received" "received * channels data < 2 ^ 31"
    and nan: "format data = paInt16 \<longrightarrow>
      NaN \<notin> set (take (nat (received * channels data)) drained)"
    by (auto simp add: engineContract_def Let_def n_def split: prod.splits)
  define padded where "padded = take (nat (received * channels data)) drained
      @ replicate (length drained - nat (received * channels data)) (Finite 0)"
  have unf: "audioCallback st input obuf framesPerBuffer data
      = (case convertOutput (format data) padded obuf of
          Inl f \<Rightarrow> Inl f
        | Inr out \<Rightarrow> Inr (h', out, paContinue))"
    unfolding padded_def
    using rng inp eng len rcv unfolding n_def by (rule audioCallback_unfold)
  have "length padded = n" using len by (simp add: padded_def)
  with ob have "bufferHolds (format data) obuf (length padded)" by simp
  moreover have "format data = paInt16 \<longrightarrow> NaN \<notin> set padded"
    using nan by (auto simp add: padded_def)
  ultimately obtain out where "convertOutput (format data) padded obuf = Inr out"
    using convertOutput_total by blast
  with unf show "\<exists>h'' out. audioCallback st input obuf framesPerBuffer data
    = Inr (h'', out, paContinue)"
    by simp
qed

text \<open>The contracts are kept by the example engine on a one-channel stream.\<close>

theorem callback_returns_continue_witness:
  "\<exists>h'' out. audioCallback fifoEngine (Some (Float32Samples [Finite (1 / 2), Finite (1 / 4)]))
      (Float32Samples [Finite 9, Finite 9]) 2 monoFloat32 = Inr (h'', out, paContinue)"
proof -
  let ?i = "[Finite (1 / 2), Finite (1 / 4)]"
  have d: "driverContract (Some (Float32Samples ?i)) (Float32Samples [Finite 9, Finite 9]) 2
      monoFloat32"
    by (simp add: driverContract_def bufferHolds_def monoFloat32_def Let_def)
  have i1: "convertInput (format monoFloat32) (Some (Float32Samples ?i))
      (2 * nat (channels monoFloat32)) = Inr ?i"
    by (simp add: monoFloat32_def convertInput_def Let_def)
  have "engineContract fifoEngine (feed fifoEngine (hST monoFloat32) ?i 2) 2 monoFloat32"
    by (simp add: engineContract_def fifoEngine_def feed_def monoFloat32_def Let_def
        replicate_two paFloat32_def paInt16_def)
  with i1 have e: "\<forall>inFloat. convertInput (format monoFloat32) (Some (Float32Samples ?i))
        (2 * nat (channels monoFloat32)) = Inr inFloat
      \<longrightarrow> engineContract fifoEngine (feed fifoEngine (hST monoFloat32) inFloat 2) 2 monoFloat32"
    by simp
  from callback_returns_continue [of fifoEngine "Some (Float32Samples ?i)"
      "Float32Samples [Finite 9, Finite 9]" 2 monoFloat32, THEN conjunct2] d e
  show ?thesis by blast
qed

text \<open>
  The engine's contract cannot do without the clause on NaN: in \<^verbatim>\<open>paInt16\<close> mode a NaN
  sample reaches the conversion to \<^verbatim>\<open>int16_t\<close>, which C++ leaves undefined.
\<close>

lemma convertOutput_NaN:
  "convertOutput paInt16 [NaN] (Int16Samples [0]) = Inl UndefinedConversion"
  by (simp add: convertOutput_def paInt16_def paFloat32_def toFixed16_NaN)

text \<open>
  Claim C10.  In \<^verbatim>\<open>paFloat32\<close> mode the first \<open>framesPerBuffer * channels\<close> samples of the
  output buffer are, one for one, the \<open>received * channels\<close> samples the engine drained
  followed by the zero padding: nothing is clamped, whatever the values the engine hands
  out.
\<close>

theorem float32_output_unclamped:
  assumes rng: "0 \<le> channels data" "int framesPerBuffer * channels data < 2 ^ 31"
    and n: "n = framesPerBuffer * nat (channels data)"
    and inp: "convertInput (format data) input n = Inr inFloat"
    and eng: "soundtouch_receiveSamples st (feed st (hST data) inFloat framesPerBuffer)
        (replicate n (Finite 0)) framesPerBuffer = (h', drained, received)"
    and len: "length drained = n"
    and rcv: "0 \<le> received" "received * channels data < 2 ^ 31"
    and fmt: "format data = paFloat32"
    and out: "n \<le> length out"
  shows "audioCallback st input (Float32Samples out) framesPerBuffer data
    = Inr (h', Float32Samples (take (nat (received * channels data)) drained
        @ replicate (n - nat (received * channels data)) (Finite 0) @ drop n out), paContinue)"
proof -
  have "audioCallback st input (Float32Samples out) framesPerBuffer data
      = (case convertOutput (format data)
            (take (nat (received * channels data)) drained
              @ replicate (length drained - nat (received * channels data)) (Finite 0))
            (Float32Samples out) of
          Inl f \<Rightarrow> Inl f
        | Inr out \<Rightarrow> Inr (h', out, paContinue))"
    using rng inp eng len rcv unfolding n by (rule audioCallback_unfold)
  moreover have "length (take (nat (received * channels data)) drained
      @ replicate (length drained - nat (received * channels data)) (Finite 0)) = n"
    using len by simp
  ultimately show ?thesis using fmt out len by (simp add: convertOutput_def)
qed

text \<open>An engine sample of \<open>2.5\<close> reaches the driver as it is.\<close>

theorem float32_output_unclamped_witness:
  "audioCallback fifoEngine (Some (Float32Samples [Finite (5 / 2), Finite (1 / 4)]))
      (Float32Samples [Finite 9, Finite 9, Finite 9]) 2 monoFloat32
    = Inr ([Finite (1 / 4)], Float32Samples [Finite (5 / 2), Finite 0, Finite 9], paContinue)"
proof -
  let ?d = "[Finite (5 / 2), Finite 0]"
  let ?i = "[Finite (5 / 2), Finite (1 / 4)]"
  have r1: "0 \<le> channels monoFloat32" "int 2 * channels monoFloat32 < 2 ^ 31"
    and n1: "(2::nat) = 2 * nat (channels monoFloat32)"
    and f1: "format monoFloat32 = paFloat32"
    by (simp_all add: monoFloat32_def)
  have i1: "convertInput (format monoFloat32) (Some (Float32Samples ?i)) 2 = Inr ?i"
    by (simp add: monoFloat32_def convertInput_def Let_def)
  have e1: "soundtouch_receiveSamples fifoEngine (feed fifoEngine (hST monoFloat32) ?i 2)
      (replicate 2 (Finite 0)) 2 = ([Finite (1 / 4)], ?d, 1)"
    by (simp add: fifoEngine_def feed_def monoFloat32_def Let_def replicate_two)
  have l1: "length ?d = 2" and g1: "(0::int) \<le> 1" "1 * channels monoFloat32 < 2 ^ 31"
    and o1: "2 \<le> length [Finite 9, Finite 9, Finite 9]"
    by (simp_all add: monoFloat32_def)
  from float32_output_unclamped [OF r1 n1 i1 e1 l1 g1 f1 o1]
  show ?thesis by (simp add: monoFloat32_def)
qed


section \<open>Properties of start-up\<close>

lemma std_min_Finite: "std_min (Finite a) (Finite b) = Finite (min a b)"
  by (auto simp add: std_min_def min_def)

text \<open>
  A run that gets past negotiation, spelled out: the calls that set the engine up, then
  one \<^verbatim>\<open>Pa_OpenStream\<close> call or two, then either the stream's life and an orderly
  shutdown, or the diagnostic and the release of the engine.
\<close>

lemma main_negotiated:
  assumes sel: "devicesSelected w"
    and ins: "0 < maxInputChannels (selectedInput w)"
    and outs: "0 < maxOutputChannels (selectedOutput w)"
    and rate: "double_to_uint (std_min (defaultSampleRate (selectedInput w))
        (defaultSampleRate (selectedOutput w))) = Some rate"
  defines "inChannels \<equiv> resolvedChannels (maxInputChannels (selectedInput w))"
    and "outChannels \<equiv> resolvedChannels (maxOutputChannels (selectedOutput w))"
    and "sampleRate \<equiv> std_min (defaultSampleRate (selectedInput w))
        (defaultSampleRate (selectedOutput w))"
  defines "request \<equiv> (\<lambda>fmt.
      \<lparr>rq_input = \<lparr>device = cin_inputDevice w, channelCount = inChannels,
                   sampleFormat = fmt,
                   suggestedLatency = defaultLowInputLatency (selectedInput w)\<rparr>,
       rq_output = \<lparr>device = cin_outputDevice w, channelCount = outChannels,
                    sampleFormat = fmt,
                    suggestedLatency = defaultLowOutputLatency (selectedOutput w)\<rparr>,
       rq_sampleRate = sampleRate,
       rq_framesPerBuffer = FRAMES_PER_BUFFER\<rparr>)"
  defines "setup \<equiv> [CallPaInitialize, CallCreateInstance, CallSetSampleRate rate,
      CallSetChannels inChannels, CallSetPitchSemiTones (Finite (- 4))]"
  defines "run \<equiv> (\<lambda>attempts fmt.
      \<lparr>calls = setup @ attempts
         @ [CallStartStream, CallStopStream, CallCloseStream, CallDestroyInstance,
            CallPaTerminate],
       exitCode = 0,
       opened = Some (request fmt,
         \<lparr>hST = soundtouch_createInstance w, format = fmt, channels = inChannels\<rparr>)\<rparr>)"
    and "abort \<equiv> (\<lambda>attempts err.
      \<lparr>calls = setup @ attempts
         @ [Stderr (OpenFailed err), CallDestroyInstance, CallPaTerminate],
       exitCode = - 1, opened = None\<rparr>)"
  shows "main w = Inr
    (if Pa_OpenStream w (request paFloat32) = paSampleFormatNotSupported then
       if Pa_OpenStream w (request paInt16) = paNoError then
         run [CallOpenStream (request paFloat32), Stderr Float32NotSupported,
              CallOpenStream (request paInt16)] paInt16
       else
         abort [CallOpenStream (request paFloat32), Stderr Float32NotSupported,
                CallOpenStream (request paInt16)] (Pa_OpenStream w (request paInt16))
     else if Pa_OpenStream w (request paFloat32) = paNoError then
       run [CallOpenStream (request paFloat32)] paFloat32
     else abort [CallOpenStream (request paFloat32)] (Pa_OpenStream w (request paFloat32)))"
proof -
  have c: "0 \<le> Pa_GetDeviceCount w" using sel by (simp add: devicesSelected_def)
  have ne: "paSampleFormatNotSupported \<noteq> paNoError"
    by (simp add: paSampleFormatNotSupported_def paNoError_def)
  show ?thesis
    using sel ins outs rate c ne
    unfolding main_def devicesSelected_def selectedInput_def selectedOutput_def
      inChannels_def outChannels_def sampleRate_def request_def setup_def run_def abort_def
      resolvedChannels_def
    by (simp add: Let_def)
qed

text \<open>A side resolves to no channel exactly when its device offers none.\<close>

lemma resolvedChannels_zero: "resolvedChannels m = 0 \<longleftrightarrow> m \<le> 0"
  by (simp add: resolvedChannels_def)

lemma main_no_channels:
  assumes "devicesSelected w"
    and "maxInputChannels (selectedInput w) \<le> 0 \<or> maxOutputChannels (selectedOutput w) \<le> 0"
  shows "main w = Inr \<lparr>calls = [CallPaInitialize, Stderr UnsupportedIO, CallPaTerminate],
    exitCode = - 1, opened = None\<rparr>"
proof -
  have "0 \<le> Pa_GetDeviceCount w" using assms(1) by (simp add: devicesSelected_def)
  then show ?thesis
    using assms
    unfolding main_def devicesSelected_def selectedInput_def selectedOutput_def
    by (auto simp add: Let_def)
qed

text \<open>
  Claim C7.  When the channel count of either side resolves to 0, that is when the input
  device has no input channel or the output device no output channel, the run ends with the
  diagnostic for devices that do not support the required I/O (the spec's
  \<open>UnsupportedDeviceCapability\<close>) and a failure status, having initialised and terminated
  PortAudio and nothing else: no engine instance was created and no stream was asked for.
\<close>

theorem zero_channels_fail_before_engine:
  assumes "devicesSelected w"
    and "maxInputChannels (selectedInput w) \<le> 0 \<or> maxOutputChannels (selectedOutput w) \<le> 0"
  shows "\<exists>out. main w = Inr out
    \<and> calls out = [CallPaInitialize, Stderr UnsupportedIO, CallPaTerminate]
    \<and> exitCode out = - 1 \<and> opened out = None
    \<and> CallCreateInstance \<notin> set (calls out) \<and> openRequests (calls out) = []"
  using main_no_channels [OF assms] by simp

text \<open>An output device with \<open>maxOutputChannels = 0\<close>.\<close>

theorem zero_channels_fail_before_engine_witness:
  "maxOutputChannels (exampleDevice 2 0 44100) = 0
   \<and> (\<exists>out. main (exampleWorld (exampleDevice 2 2 48000) (exampleDevice 2 0 44100)
          acceptingDriver) = Inr out
      \<and> calls out = [CallPaInitialize, Stderr UnsupportedIO, CallPaTerminate]
      \<and> exitCode out = - 1 \<and> opened out = None
      \<and> CallCreateInstance \<notin> set (calls out) \<and> openRequests (calls out) = [])"
proof -
  let ?w = "exampleWorld (exampleDevice 2 2 48000) (exampleDevice 2 0 44100) acceptingDriver"
  have s: "devicesSelected ?w" by (simp add: devicesSelected_def exampleWorld_def)
  have z: "maxOutputChannels (exampleDevice 2 0 44100) = 0"
    by (simp add: exampleDevice_def)
  then have "maxInputChannels (selectedInput ?w) \<le> 0
      \<or> maxOutputChannels (selectedOutput ?w) \<le> 0"
    by (simp add: selectedOutput_def exampleWorld_def)
  from zero_channels_fail_before_engine [OF s this] z show ?thesis by blast
qed

lemma double_to_uint_Finite:
  assumes "0 \<le> r" and "r < 2 ^ 32"
  shows "double_to_uint (Finite r) = Some (word_of_int \<lfloor>r\<rfloor>)"
proof -
  have "\<lfloor>r\<rfloor> < 2 ^ 32" using assms(2) by (simp add: floor_less_iff)
  moreover have "0 \<le> \<lfloor>r\<rfloor>" using assms(1) by simp
  ultimately show ?thesis using assms(1) by (simp add: trunc_def)
qed

text \<open>
  Claim C6.  For devices whose default sample rates are the numbers \<open>a\<close> and \<open>b\<close>, the rate
  of every \<^verbatim>\<open>Pa_OpenStream\<close> request of the run, and of the stream that is opened, is
  \<open>min a b\<close>.  (The run must get as far as opening a stream, and the rate must be one that
  the conversion to \<^verbatim>\<open>unsigned int\<close> for the engine is defined for.)
\<close>

theorem sample_rate_is_minimum:
  assumes sel: "devicesSelected w"
    and ins: "0 < maxInputChannels (selectedInput w)"
    and outs: "0 < maxOutputChannels (selectedOutput w)"
    and ra: "defaultSampleRate (selectedInput w) = Finite a"
    and rb: "defaultSampleRate (selectedOutput w) = Finite b"
    and rng: "0 \<le> min a b" "min a b < 2 ^ 32"
  shows "\<exists>out. main w = Inr out
    \<and> openRequests (calls out) \<noteq> []
    \<and> (\<forall>r\<in>set (openRequests (calls out)). rq_sampleRate r = Finite (min a b))
    \<and> (\<forall>r cb. opened out = Some (r, cb) \<longrightarrow> rq_sampleRate r = Finite (min a b))"
proof -
  have "double_to_uint (std_min (defaultSampleRate (selectedInput w))
      (defaultSampleRate (selectedOutput w))) = Some (word_of_int \<lfloor>min a b\<rfloor>)"
    using double_to_uint_Finite [OF rng] by (simp only: ra rb std_min_Finite)
  note m = main_negotiated [OF sel ins outs this]
  show ?thesis
    by (simp add: m ra rb std_min_Finite)
qed

text \<open>Default rates of 48000 and 44100 give 44100.\<close>

theorem sample_rate_is_minimum_witness:
  "\<exists>out. main (exampleWorld (exampleDevice 2 0 48000) (exampleDevice 0 2 44100)
        acceptingDriver) = Inr out
    \<and> openRequests (calls out) \<noteq> []
    \<and> rq_sampleRate (hd (openRequests (calls out))) = Finite 44100"
proof -
  let ?w = "exampleWorld (exampleDevice 2 0 48000) (exampleDevice 0 2 44100) acceptingDriver"
  have s: "devicesSelected ?w" by (simp add: devicesSelected_def exampleWorld_def)
  have i: "0 < maxInputChannels (selectedInput ?w)"
    and ou: "0 < maxOutputChannels (selectedOutput ?w)"
    and a: "defaultSampleRate (selectedInput ?w) = Finite 48000"
    and b: "defaultSampleRate (selectedOutput ?w) = Finite 44100"
    by (simp_all add: selectedInput_def selectedOutput_def exampleWorld_def exampleDevice_def)
  have r: "(0::rat) \<le> min 48000 44100" "min (48000::rat) 44100 < 2 ^ 32" by simp_all
  from sample_rate_is_minimum [OF s i ou a b r] obtain out where o:
    "main ?w = Inr out" "openRequests (calls out) \<noteq> []"
    "\<forall>r\<in>set (openRequests (calls out)). rq_sampleRate r = Finite (min 48000 44100)"
    by blast
  from o(2,3) have "rq_sampleRate (hd (openRequests (calls out))) = Finite 44100"
    by (simp add: hd_in_set)
  with o(1,2) show ?thesis by blast
qed

text \<open>
  Claim C4.  The first \<^verbatim>\<open>Pa_OpenStream\<close> request asks for \<^verbatim>\<open>paFloat32\<close> on both sides.  If
  its answer is \<^verbatim>\<open>paSampleFormatNotSupported\<close>, there is exactly one more request, the same
  with \<^verbatim>\<open>paInt16\<close> on both sides, and when that one succeeds the stream runs with a
  \<^verbatim>\<open>cbData\<close> whose format is \<^verbatim>\<open>paInt16\<close>.  With any other answer to the first request there
  is no second one.  A failure of the first request for another reason, and a failure of
  the retry, end the run with a failure status and no stream started.
\<close>

theorem float32_then_int16_once:
  assumes sel: "devicesSelected w"
    and ins: "0 < maxInputChannels (selectedInput w)"
    and outs: "0 < maxOutputChannels (selectedOutput w)"
    and rate: "double_to_uint (std_min (defaultSampleRate (selectedInput w))
        (defaultSampleRate (selectedOutput w))) = Some rate"
  shows "\<exists>out first. main w = Inr out
    \<and> sampleFormat (rq_input first) = paFloat32 \<and> sampleFormat (rq_output first) = paFloat32
    \<and> (if Pa_OpenStream w first = paSampleFormatNotSupported then
          openRequests (calls out) = [first, withFormat paInt16 first]
          \<and> (if Pa_OpenStream w (withFormat paInt16 first) = paNoError then
                exitCode out = 0
                \<and> (\<exists>cb. opened out = Some (withFormat paInt16 first, cb) \<and> format cb = paInt16)
              else
                exitCode out = - 1 \<and> opened out = None \<and> CallStartStream \<notin> set (calls out))
        else
          openRequests (calls out) = [first]
          \<and> (if Pa_OpenStream w first = paNoError then
                exitCode out = 0
                \<and> (\<exists>cb. opened out = Some (first, cb) \<and> format cb = paFloat32)
              else
                exitCode out = - 1 \<and> opened out = None \<and> CallStartStream \<notin> set (calls out)))"
proof -
  note m = main_negotiated [OF sel ins outs rate]
  show ?thesis
    apply (simp only: m)
    apply (rule exI)
    apply (rule exI [where x = "\<lparr>rq_input = \<lparr>device = cin_inputDevice w,
        channelCount = resolvedChannels (maxInputChannels (selectedInput w)),
        sampleFormat = paFloat32,
        suggestedLatency = defaultLowInputLatency (selectedInput w)\<rparr>,
      rq_output = \<lparr>device = cin_outputDevice w,
        channelCount = resolvedChannels (maxOutputChannels (selectedOutput w)),
        sampleFormat = paFloat32,
        suggestedLatency = defaultLowOutputLatency (selectedOutput w)\<rparr>,
      rq_sampleRate = std_min (defaultSampleRate (selectedInput w))
        (defaultSampleRate (selectedOutput w)),
      rq_framesPerBuffer = FRAMES_PER_BUFFER\<rparr>"])
    apply (rule conjI)
     apply (rule refl)
    apply (simp add: withFormat_def)
    done
qed

text \<open>A driver that only takes \<^verbatim>\<open>paInt16\<close> streams.\<close>

theorem float32_then_int16_once_witness:
  "\<exists>out. main (exampleWorld (exampleDevice 2 0 48000) (exampleDevice 0 2 44100)
        int16OnlyDriver) = Inr out
    \<and> map (sampleFormat \<circ> rq_input) (openRequests (calls out)) = [paFloat32, paInt16]
    \<and> map (sampleFormat \<circ> rq_output) (openRequests (calls out)) = [paFloat32, paInt16]
    \<and> exitCode out = 0
    \<and> map (format \<circ> snd) (case opened out of None \<Rightarrow> [] | Some s \<Rightarrow> [s]) = [paInt16]"
proof -
  let ?w = "exampleWorld (exampleDevice 2 0 48000) (exampleDevice 0 2 44100) int16OnlyDriver"
  have s: "devicesSelected ?w" by (simp add: devicesSelected_def exampleWorld_def)
  have i: "0 < maxInputChannels (selectedInput ?w)"
    and ou: "0 < maxOutputChannels (selectedOutput ?w)"
    by (simp_all add: selectedInput_def selectedOutput_def exampleWorld_def exampleDevice_def)
  have "std_min (defaultSampleRate (selectedInput ?w)) (defaultSampleRate (selectedOutput ?w))
      = Finite 44100"
    by (simp add: selectedInput_def selectedOutput_def exampleWorld_def exampleDevice_def
        std_min_def)
  moreover have "double_to_uint (Finite 44100) = Some 44100"
    by (simp add: trunc_def)
  ultimately have r: "double_to_uint (std_min (defaultSampleRate (selectedInput ?w))
      (defaultSampleRate (selectedOutput ?w))) = Some 44100"
    by simp
  have d: "Pa_OpenStream ?w = int16OnlyDriver" by (simp add: exampleWorld_def)
  have ne: "paFloat32 \<noteq> paInt16" "paSampleFormatNotSupported \<noteq> paNoError"
    by (simp_all add: paFloat32_def paInt16_def paSampleFormatNotSupported_def paNoError_def)
  from float32_then_int16_once [OF s i ou r] obtain out first where o:
    "main ?w = Inr out"
    "sampleFormat (rq_input first) = paFloat32" "sampleFormat (rq_output first) = paFloat32"
    "if Pa_OpenStream ?w first = paSampleFormatNotSupported then
          openRequests (calls out) = [first, withFormat paInt16 first]
          \<and> (if Pa_OpenStream ?w (withFormat paInt16 first) = paNoError then
                exitCode out = 0
                \<and> (\<exists>cb. opened out = Some (withFormat paInt16 first, cb) \<and> format cb = paInt16)
              else
                exitCode out = - 1 \<and> opened out = None \<and> CallStartStream \<notin> set (calls out))
        else
          openRequests (calls out) = [first]
          \<and> (if Pa_OpenStream ?w first = paNoError then
                exitCode out = 0
                \<and> (\<exists>cb. opened out = Some (first, cb) \<and> format cb = paFloat32)
              else
                exitCode out = - 1 \<and> opened out = None \<and> CallStartStream \<notin> set (calls out))"
    by blast
  have f1: "int16OnlyDriver first = paSampleFormatNotSupported"
    using o(2) ne by (simp add: int16OnlyDriver_def)
  have f2: "int16OnlyDriver (withFormat paInt16 first) = paNoError"
    by (simp add: int16OnlyDriver_def withFormat_def)
  from o(4) have "openRequests (calls out) = [first, withFormat paInt16 first]"
    and "exitCode out = 0"
    and "\<exists>cb. opened out = Some (withFormat paInt16 first, cb) \<and> format cb = paInt16"
    by (simp_all add: d f1 f2)
  with o(1,2,3) show ?thesis by (auto simp add: withFormat_def)
qed

text \<open>
  Claim C1 does not hold of the code.  For an input device with two input channels and an
  output device with one output channel the two sides resolve to 2 and 1, both nonzero;
  the engine and the callback get 2 channels, the count of the input side and not the
  smaller of the two, and the two streams are opened with 2 and 1 channels.
\<close>

theorem channel_counts_can_differ:
  "\<exists>out r cb. main (exampleWorld (exampleDevice 2 0 48000) (exampleDevice 0 1 44100)
        acceptingDriver) = Inr out
    \<and> opened out = Some (r, cb)
    \<and> resolvedChannels (maxInputChannels (exampleDevice 2 0 48000)) = 2
    \<and> resolvedChannels (maxOutputChannels (exampleDevice 0 1 44100)) = 1
    \<and> CallSetChannels 2 \<in> set (calls out)
    \<and> channels cb = 2
    \<and> channelCount (rq_input r) = 2
    \<and> channelCount (rq_output r) = 1"
proof -
  let ?w = "exampleWorld (exampleDevice 2 0 48000) (exampleDevice 0 1 44100) acceptingDriver"
  have s: "devicesSelected ?w" by (simp add: devicesSelected_def exampleWorld_def)
  have i: "0 < maxInputChannels (selectedInput ?w)"
    and ou: "0 < maxOutputChannels (selectedOutput ?w)"
    by (simp_all add: selectedInput_def selectedOutput_def exampleWorld_def exampleDevice_def)
  have "std_min (defaultSampleRate (selectedInput ?w)) (defaultSampleRate (selectedOutput ?w))
      = Finite 44100"
    by (simp add: selectedInput_def selectedOutput_def exampleWorld_def exampleDevice_def
        std_min_def)
  moreover have "double_to_uint (Finite 44100) = Some 44100"
    by (simp add: trunc_def)
  ultimately have r: "double_to_uint (std_min (defaultSampleRate (selectedInput ?w))
      (defaultSampleRate (selectedOutput ?w))) = Some 44100"
    by simp
  have d: "Pa_OpenStream ?w = acceptingDriver" by (simp add: exampleWorld_def)
  have ne: "paSampleFormatNotSupported \<noteq> paNoError"
    by (simp add: paSampleFormatNotSupported_def paNoError_def)
  have c: "resolvedChannels (maxInputChannels (selectedInput ?w)) = 2"
    "resolvedChannels (maxOutputChannels (selectedOutput ?w)) = 1"
    "resolvedChannels (maxInputChannels (exampleDevice 2 0 48000)) = 2"
    "resolvedChannels (maxOutputChannels (exampleDevice 0 1 44100)) = 1"
    by (simp_all add: selectedInput_def selectedOutput_def exampleWorld_def exampleDevice_def
        resolvedChannels_def)
  show ?thesis
    using ne by (simp add: main_negotiated [OF s i ou r] d acceptingDriver_def c)
qed

text \<open>
  What this means for the callback: on the one-channel output stream the driver's buffer
  holds 512 samples per invocation, and the callback, told of two channels, writes 1024.
\<close>

lemma mismatched_channels_overrun:
  "audioCallback silentEngine None (Float32Samples (replicate 512 (Finite 0))) 512
      \<lparr>hST = (), format = paFloat32, channels = 2\<rparr> = Inl OutOfBounds"
proof -
  let ?data = "\<lparr>hST = (), format = paFloat32, channels = 2\<rparr>"
  have "audioCallback silentEngine None (Float32Samples (replicate 512 (Finite 0))) 512 ?data
    = (case convertOutput (format ?data)
          (take (nat (0 * channels ?data)) (replicate (512 * nat (channels ?data)) (Finite 0))
            @ replicate (length (replicate (512 * nat (channels ?data)) (Finite 0))
                - nat (0 * channels ?data)) (Finite 0))
          (Float32Samples (replicate 512 (Finite 0))) of
        Inl f \<Rightarrow> Inl f
      | Inr out \<Rightarrow> Inr ((), out, paContinue))"
    by (rule audioCallback_unfold [where inFloat = "replicate (512 * nat (channels ?data)) (Finite 0)"])
      (simp_all add: convertInput_def silentEngine_def Let_def)
  then show ?thesis by (simp add: convertOutput_def)
qed


end
